theory Spec2Isabelle
  imports Main "HOL-Library.AList" "HOL-Library.Sublist"
begin

section \<open>JavaScript values used by the gateway\<close>

text \<open>
  A JavaScript \<open>Map\<close> keeps its entries in insertion order: \<open>set\<close> on a key that is
  present replaces the value where it stands, \<open>set\<close> on a new key appends the entry,
  \<open>delete\<close> removes it, \<open>values()\<close> iterates in that order. It is an association list.
\<close>

type_synonym ('k, 'v) js_map = "('k \<times> 'v) list"

definition Map_get :: "('k, 'v) js_map \<Rightarrow> 'k \<Rightarrow> 'v option" where
  "Map_get m k = map_of m k"

definition Map_set :: "('k, 'v) js_map \<Rightarrow> 'k \<Rightarrow> 'v \<Rightarrow> ('k, 'v) js_map" where
  "Map_set m k v = AList.update k v m"

definition Map_delete :: "('k, 'v) js_map \<Rightarrow> 'k \<Rightarrow> ('k, 'v) js_map" where
  "Map_delete m k = AList.delete k m"

definition Map_values :: "('k, 'v) js_map \<Rightarrow> 'v list" where
  "Map_values m = map snd m"

text \<open>
  A template literal \<open>`${n}`\<close> renders an integral Number in decimal. The counters
  and \<open>Date.now()\<close> are taken as exact integers: they stay far below \<open>2^53\<close>, where
  \<open>++\<close> stops being exact, and \<open>1e21\<close>, where JavaScript switches to exponents.
\<close>

definition digit_char :: "nat \<Rightarrow> char" where
  "digit_char d = ''0123456789'' ! d"

fun decimal :: "nat \<Rightarrow> string" where
  "decimal n = (if n < 10 then [digit_char n] else decimal (n div 10) @ [digit_char (n mod 10)])"

declare decimal.simps [simp del]

definition Number_toString :: "int \<Rightarrow> string" where
  "Number_toString i = (if i < 0 then CHR ''-'' # decimal (nat (- i)) else decimal (nat i))"

section \<open>Data model\<close>

text \<open>\<open>interface Session { id: string; userId: string; createdAt: number }\<close>\<close>

record session =
  session_id :: string
  userId :: string
  createdAt :: int

text \<open>
  A conversation message \<open>{ role: string; content: string }\<close>. The type is erased at
  run time and \<open>sendPrompt\<close> stores what the upstream body holds under
  \<open>choices[0].message.content\<close> without a check, so the content is a JavaScript value:
  a string, \<open>null\<close>, \<open>undefined\<close> (the property is absent), or any other JSON value
  (number, boolean, array, object), kept by its JSON text.
\<close>

datatype js_value = JS_string string | JS_null | JS_undefined | JS_other string

record message =
  role :: string
  content :: js_value

section \<open>SessionManager (session-manager.ts, first class)\<close>

record SessionManager =
  sm_sessions :: "(string, session) js_map"
  idCounter :: nat

text \<open>\<open>Date.now()\<close> is an input: the wall-clock reading in milliseconds.\<close>

definition SessionManager_createSession ::
  "SessionManager \<Rightarrow> int \<Rightarrow> string \<Rightarrow> session \<times> SessionManager" where
  "SessionManager_createSession st now uid =
     (let s = \<lparr>session_id = ''session-'' @ Number_toString (int (idCounter st)),
                userId = uid, createdAt = now\<rparr>
      in (s, st\<lparr>sm_sessions := Map_set (sm_sessions st) (session_id s) s,
                idCounter := idCounter st + 1\<rparr>))"

definition SessionManager_getSession ::
  "SessionManager \<Rightarrow> string \<Rightarrow> string \<Rightarrow> session option" where
  "SessionManager_getSession st sid uid =
     (case Map_get (sm_sessions st) sid of
        Some s \<Rightarrow> if userId s = uid then Some s else None
      | None \<Rightarrow> None)"

text \<open>\<open>deleteSession(...): void\<close> returns nothing: the result is the store alone.\<close>

definition SessionManager_deleteSession ::
  "SessionManager \<Rightarrow> string \<Rightarrow> string \<Rightarrow> unit \<times> SessionManager" where
  "SessionManager_deleteSession st sid uid =
     (case Map_get (sm_sessions st) sid of
        Some s \<Rightarrow> if userId s = uid
                  then ((), st\<lparr>sm_sessions := Map_delete (sm_sessions st) sid\<rparr>)
                  else ((), st)
      | None \<Rightarrow> ((), st))"

section \<open>InMemorySessionStore (session-manager.ts, Worker fallback store)\<close>

record InMemorySessionStore =
  sessions :: "(string, session) js_map"
  messages :: "(string, message list) js_map"
  sessionCounter :: nat

text \<open>A thrown \<open>Error\<close> object, by its message.\<close>

datatype js_error = Error string

text \<open>
  \<open>createSession\<close> reads the clock twice: once inside the id, once for \<open>createdAt\<close>.
\<close>

definition InMemory_createSession ::
  "InMemorySessionStore \<Rightarrow> int \<Rightarrow> int \<Rightarrow> string \<Rightarrow> session \<times> InMemorySessionStore" where
  "InMemory_createSession st now_id now_created uid =
     (let s = \<lparr>session_id = ''opencode-'' @ Number_toString now_id @ ''-''
                               @ Number_toString (int (sessionCounter st)),
                userId = uid, createdAt = now_created\<rparr>
      in (s, st\<lparr>sessions := Map_set (sessions st) (session_id s) s,
                messages := Map_set (messages st) (session_id s) [],
                sessionCounter := sessionCounter st + 1\<rparr>))"

definition InMemory_getSession ::
  "InMemorySessionStore \<Rightarrow> string \<Rightarrow> string \<Rightarrow> session option" where
  "InMemory_getSession st sid uid =
     (case Map_get (sessions st) sid of
        Some s \<Rightarrow> if userId s = uid then Some s else None
      | None \<Rightarrow> None)"

definition InMemory_deleteSession ::
  "InMemorySessionStore \<Rightarrow> string \<Rightarrow> string \<Rightarrow> bool \<times> InMemorySessionStore" where
  "InMemory_deleteSession st sid uid =
     (case Map_get (sessions st) sid of
        Some s \<Rightarrow> if userId s = uid
                  then (True, st\<lparr>sessions := Map_delete (sessions st) sid,
                                  messages := Map_delete (messages st) sid\<rparr>)
                  else (False, st)
      | None \<Rightarrow> (False, st))"

definition InMemory_listUserSessions :: "InMemorySessionStore \<Rightarrow> string \<Rightarrow> session list" where
  "InMemory_listUserSessions st uid = filter (\<lambda>s. userId s = uid) (Map_values (sessions st))"

text \<open>\<open>this.messages.get(sessionId) || []\<close>: an array is always truthy.\<close>

definition InMemory_history :: "InMemorySessionStore \<Rightarrow> string \<Rightarrow> message list" where
  "InMemory_history st sid = (case Map_get (messages st) sid of Some h \<Rightarrow> h | None \<Rightarrow> [])"

definition InMemory_addMessage ::
  "InMemorySessionStore \<Rightarrow> string \<Rightarrow> string \<Rightarrow> message \<Rightarrow> js_error + InMemorySessionStore" where
  "InMemory_addMessage st sid uid m =
     (case Map_get (sessions st) sid of
        None \<Rightarrow> Inl (Error ''Session not found or access denied'')
      | Some s \<Rightarrow>
          if userId s \<noteq> uid then Inl (Error ''Session not found or access denied'')
          else Inr (st\<lparr>messages := Map_set (messages st) sid (InMemory_history st sid @ [m])\<rparr>))"

definition InMemory_getConversationHistory ::
  "InMemorySessionStore \<Rightarrow> string \<Rightarrow> string \<Rightarrow> message list" where
  "InMemory_getConversationHistory st sid uid =
     (case Map_get (sessions st) sid of
        None \<Rightarrow> []
      | Some s \<Rightarrow> if userId s \<noteq> uid then [] else InMemory_history st sid)"

section \<open>SessionDurableObject (session-manager.ts, SQLite-backed store)\<close>

text \<open>
  The tables of \<open>initDB\<close>, as the lists of their rows in insertion order:
  \<open>sessions (id TEXT PRIMARY KEY, user_id, created_at)\<close> and
  \<open>messages (id INTEGER PRIMARY KEY AUTOINCREMENT, session_id REFERENCES sessions(id)
  ON DELETE CASCADE, role, content, created_at)\<close>. \<open>messages_seq\<close> is the last id the
  \<open>AUTOINCREMENT\<close> column has given out. Foreign keys are taken as enforced, so that
  deleting a session deletes its messages, as the source's comment on \<open>deleteSession\<close>
  expects.
\<close>

record session_row =
  row_id :: string
  user_id :: string
  created_at :: int

record message_row =
  msg_id :: nat
  msg_session_id :: string
  msg_role :: string
  msg_content :: string
  msg_created_at :: int

text \<open>
  \<open>this.sql\<close>, the platform's SQLite handle, as far as the store depends on it: the
  messages of the errors it throws when an \<open>INSERT\<close> repeats a primary key of
  \<open>sessions\<close> or puts \<open>NULL\<close> into \<open>messages.content\<close> (\<open>TEXT NOT NULL\<close>), and what
  binding a value that is neither a string nor \<open>null\<close> to that column does: it throws,
  or binds \<open>NULL\<close> (\<open>None\<close>), or binds a text. A string is bound as itself and
  \<open>null\<close> as \<open>NULL\<close>.
\<close>

record sql_engine =
  primary_key_error :: string
  not_null_error :: string
  bind_value :: "js_value \<Rightarrow> js_error + string option"

definition sql_bind :: "sql_engine \<Rightarrow> js_value \<Rightarrow> js_error + string option" where
  "sql_bind engine v =
     (case v of
        JS_string text \<Rightarrow> Inr (Some text)
      | JS_null \<Rightarrow> Inr None
      | _ \<Rightarrow> bind_value engine v)"

record SessionDurableObject =
  sql :: sql_engine
  sessions_table :: "session_row list"
  messages_table :: "message_row list"
  messages_seq :: nat

definition session_of_row :: "session_row \<Rightarrow> session" where
  "session_of_row r = \<lparr>session_id = row_id r, userId = user_id r, createdAt = created_at r\<rparr>"

definition message_of_row :: "message_row \<Rightarrow> message" where
  "message_of_row r = \<lparr>role = msg_role r, content = JS_string (msg_content r)\<rparr>"

text \<open>
  \<open>ORDER BY created_at ASC\<close> and \<open>DESC\<close>. SQL leaves the order of rows with equal keys
  open; the model keeps them in table order (a stable sort).
\<close>

definition order_by_asc :: "('r \<Rightarrow> int) \<Rightarrow> 'r list \<Rightarrow> 'r list" where
  "order_by_asc k rows = sort_key k rows"

definition order_by_desc :: "('r \<Rightarrow> int) \<Rightarrow> 'r list \<Rightarrow> 'r list" where
  "order_by_desc k rows = sort_key (\<lambda>r. - k r) rows"

text \<open>
  \<open>createSession\<close>: the id is \<open>opencode-${Date.now()}-${random suffix}\<close>, where the suffix
  \<open>Math.random().toString(36).substring(2, 11)\<close> is an input. The \<open>INSERT\<close> fails on a
  primary key that is already in the table.
\<close>

definition Durable_createSession ::
  "SessionDurableObject \<Rightarrow> int \<Rightarrow> string \<Rightarrow> int \<Rightarrow> string
     \<Rightarrow> js_error + session \<times> SessionDurableObject" where
  "Durable_createSession d now_id rnd now_created uid =
     (let sid = ''opencode-'' @ Number_toString now_id @ ''-'' @ rnd
      in if sid \<in> row_id ` set (sessions_table d)
         then Inl (Error (primary_key_error (sql d)))
         else Inr (\<lparr>session_id = sid, userId = uid, createdAt = now_created\<rparr>,
                   d\<lparr>sessions_table := sessions_table d
                        @ [\<lparr>row_id = sid, user_id = uid, created_at = now_created\<rparr>]\<rparr>))"

definition Durable_getSession ::
  "SessionDurableObject \<Rightarrow> string \<Rightarrow> string \<Rightarrow> session option" where
  "Durable_getSession d sid uid =
     (case filter (\<lambda>r. row_id r = sid \<and> user_id r = uid) (sessions_table d) of
        [] \<Rightarrow> None
      | row # _ \<Rightarrow> Some (session_of_row row))"

definition Durable_deleteSession ::
  "SessionDurableObject \<Rightarrow> string \<Rightarrow> string \<Rightarrow> bool \<times> SessionDurableObject" where
  "Durable_deleteSession d sid uid =
     (case Durable_getSession d sid uid of
        None \<Rightarrow> (False, d)
      | Some _ \<Rightarrow>
          (True, d\<lparr>sessions_table := filter (\<lambda>r. row_id r \<noteq> sid) (sessions_table d),
                   messages_table := filter (\<lambda>m. msg_session_id m \<noteq> sid) (messages_table d)\<rparr>))"

definition Durable_listUserSessions :: "SessionDurableObject \<Rightarrow> string \<Rightarrow> session list" where
  "Durable_listUserSessions d uid =
     map session_of_row
       (order_by_desc created_at (filter (\<lambda>r. user_id r = uid) (sessions_table d)))"

text \<open>
  \<open>addMessage\<close>: the \<open>INSERT\<close> throws when the content cannot be bound or is bound as
  \<open>NULL\<close>; nothing is written then.
\<close>

definition Durable_addMessage ::
  "SessionDurableObject \<Rightarrow> string \<Rightarrow> string \<Rightarrow> message \<Rightarrow> int
     \<Rightarrow> js_error + SessionDurableObject" where
  "Durable_addMessage d sid uid m now =
     (case Durable_getSession d sid uid of
        None \<Rightarrow> Inl (Error ''Session not found or access denied'')
      | Some _ \<Rightarrow>
          (case sql_bind (sql d) (content m) of
             Inl e \<Rightarrow> Inl e
           | Inr None \<Rightarrow> Inl (Error (not_null_error (sql d)))
           | Inr (Some text) \<Rightarrow>
               Inr (d\<lparr>messages_table := messages_table d
                         @ [\<lparr>msg_id = messages_seq d + 1, msg_session_id = sid,
                             msg_role = role m, msg_content = text, msg_created_at = now\<rparr>],
                       messages_seq := messages_seq d + 1\<rparr>)))"

definition Durable_getConversationHistory ::
  "SessionDurableObject \<Rightarrow> string \<Rightarrow> string \<Rightarrow> message list" where
  "Durable_getConversationHistory d sid uid =
     (case Durable_getSession d sid uid of
        None \<Rightarrow> []
      | Some _ \<Rightarrow>
          map message_of_row
            (order_by_asc msg_created_at
               (filter (\<lambda>r. msg_session_id r = sid) (messages_table d))))"

section \<open>The store behind OpenCodeService\<close>

text \<open>
  The Worker hands \<open>OpenCodeService\<close> either the Durable Object or, without the
  \<open>SESSIONS\<close> binding, the in-memory store; both answer the same six calls. The clock
  readings and the random suffix are passed to every call and used by the store that
  reads them.
\<close>

datatype SessionStore = InMemory InMemorySessionStore | Durable SessionDurableObject

fun Store_createSession ::
  "SessionStore \<Rightarrow> int \<Rightarrow> string \<Rightarrow> int \<Rightarrow> string \<Rightarrow> js_error + session \<times> SessionStore" where
  "Store_createSession (InMemory st) now_id rnd now_created uid =
     (case InMemory_createSession st now_id now_created uid of (s, st') \<Rightarrow> Inr (s, InMemory st'))"
| "Store_createSession (Durable d) now_id rnd now_created uid =
     (case Durable_createSession d now_id rnd now_created uid of
        Inl e \<Rightarrow> Inl e
      | Inr (s, d') \<Rightarrow> Inr (s, Durable d'))"

fun Store_getSession :: "SessionStore \<Rightarrow> string \<Rightarrow> string \<Rightarrow> session option" where
  "Store_getSession (InMemory st) sid uid = InMemory_getSession st sid uid"
| "Store_getSession (Durable d) sid uid = Durable_getSession d sid uid"

fun Store_deleteSession :: "SessionStore \<Rightarrow> string \<Rightarrow> string \<Rightarrow> bool \<times> SessionStore" where
  "Store_deleteSession (InMemory st) sid uid =
     (case InMemory_deleteSession st sid uid of (b, st') \<Rightarrow> (b, InMemory st'))"
| "Store_deleteSession (Durable d) sid uid =
     (case Durable_deleteSession d sid uid of (b, d') \<Rightarrow> (b, Durable d'))"

fun Store_listUserSessions :: "SessionStore \<Rightarrow> string \<Rightarrow> session list" where
  "Store_listUserSessions (InMemory st) uid = InMemory_listUserSessions st uid"
| "Store_listUserSessions (Durable d) uid = Durable_listUserSessions d uid"

fun Store_addMessage ::
  "SessionStore \<Rightarrow> string \<Rightarrow> string \<Rightarrow> message \<Rightarrow> int \<Rightarrow> js_error + SessionStore" where
  "Store_addMessage (InMemory st) sid uid m now =
     (case InMemory_addMessage st sid uid m of Inl e \<Rightarrow> Inl e | Inr st' \<Rightarrow> Inr (InMemory st'))"
| "Store_addMessage (Durable d) sid uid m now =
     (case Durable_addMessage d sid uid m now of Inl e \<Rightarrow> Inl e | Inr d' \<Rightarrow> Inr (Durable d'))"

fun Store_getConversationHistory :: "SessionStore \<Rightarrow> string \<Rightarrow> string \<Rightarrow> message list" where
  "Store_getConversationHistory (InMemory st) sid uid = InMemory_getConversationHistory st sid uid"
| "Store_getConversationHistory (Durable d) sid uid = Durable_getConversationHistory d sid uid"

section \<open>OpenCodeService (opencode-client.ts, the OpenCode Zen client)\<close>

text \<open>
  The body \<open>{ model, messages, stream: false }\<close> that \<open>callOpenCodeAPI\<close> posts to the
  completion endpoint.
\<close>

record api_request =
  req_model :: string
  req_messages :: "message list"
  req_stream :: bool

definition defaultModel :: string where
  "defaultModel = ''glm-4.7-free''"

text \<open>
  What \<open>fetch\<close> and the reading of its response can do. A rejection carries the thrown
  value: an \<open>Error\<close> with its message, or something that is no \<open>Error\<close>.
  \<^item> \<open>Fetch_rejects\<close>: \<open>fetch\<close> itself rejects (network failure, timeout).
  \<^item> \<open>Not_ok status statusText body\<close>: \<open>response.ok\<close> is false; \<open>body\<close> is what
    \<open>response.text()\<close> gives, or what it throws.
  \<^item> \<open>Json_rejects\<close>: \<open>response.json()\<close> rejects, the body is not JSON.
  \<^item> \<open>Json_null\<close>: the body parses to \<open>null\<close>, so reading \<open>data.choices\<close> throws.
  \<^item> \<open>Json_data choices\<close>: the parsed body, read as far as the code reads it:
    \<open>data.choices\<close> is absent or falsy (\<open>None\<close>), or an array of entries. An entry
    is \<open>null\<close> or has no \<open>message\<close> (\<open>No_message\<close>), so that reading its \<open>content\<close>
    throws, or has a \<open>message\<close> whose \<open>content\<close> is any JavaScript value,
    \<open>undefined\<close> when the property is absent.
\<close>

datatype rejection = Rejected_Error string | Rejected_other

datatype api_choice = No_message | Message js_value

datatype fetch_outcome =
    Fetch_rejects rejection
  | Not_ok nat string "rejection + string"
  | Json_rejects rejection
  | Json_null
  | Json_data "api_choice list option"

text \<open>
  The upstream endpoint: how it answers a request, and the requests it has received.
\<close>

record upstream =
  respond :: "api_request \<Rightarrow> fetch_outcome"
  received :: "api_request list"

definition fetch :: "upstream \<Rightarrow> api_request \<Rightarrow> fetch_outcome \<times> upstream" where
  "fetch up req = (respond up req, up\<lparr>received := received up @ [req]\<rparr>)"

text \<open>
  The two fallback texts of the \<open>catch\<close> block, as the UTF-8 bytes of the source's
  Japanese literals (the first ends with a colon and a space).
\<close>

definition error_marker :: string where
  "error_marker = map char_of
    [0x5B, 0xE3, 0x82, 0xA8, 0xE3, 0x83, 0xA9, 0xE3, 0x83, 0xBC, 0x5D, 0x20, 0x41, 0x50,
     0x49, 0xE5, 0x91, 0xBC, 0xE3, 0x81, 0xB3, 0xE5, 0x87, 0xBA, 0xE3, 0x81, 0x97, 0xE3,
     0x81, 0xAB, 0xE5, 0xA4, 0xB1, 0xE6, 0x95, 0x97, 0xE3, 0x81, 0x97, 0xE3, 0x81, 0xBE,
     0xE3, 0x81, 0x97, 0xE3, 0x81, 0x9F, 0x3A, 0x20 :: nat]"

definition unknown_error_marker :: string where
  "unknown_error_marker = map char_of
    [0x5B, 0xE3, 0x82, 0xA8, 0xE3, 0x83, 0xA9, 0xE3, 0x83, 0xBC, 0x5D, 0x20, 0xE4, 0xB8,
     0x8D, 0xE6, 0x98, 0x8E, 0xE3, 0x81, 0xAA, 0xE3, 0x82, 0xA8, 0xE3, 0x83, 0xA9, 0xE3,
     0x83, 0xBC, 0xE3, 0x81, 0x8C, 0xE7, 0x99, 0xBA, 0xE7, 0x94, 0x9F, 0xE3, 0x81, 0x97,
     0xE3, 0x81, 0xBE, 0xE3, 0x81, 0x97, 0xE3, 0x81, 0x9F :: nat]"

text \<open>
  The \<open>try\<close> block of \<open>callOpenCodeAPI\<close>: the text it returns, or what it throws.
  \<open>type_error\<close> is the message of the engine's \<open>TypeError\<close> for a property read on
  \<open>null\<close> or \<open>undefined\<close>.
\<close>

definition callOpenCodeAPI_try :: "string \<Rightarrow> fetch_outcome \<Rightarrow> rejection + js_value" where
  "callOpenCodeAPI_try type_error outcome =
     (case outcome of
        Fetch_rejects e \<Rightarrow> Inl e
      | Not_ok st status_text body \<Rightarrow>
          (case body of
             Inl e \<Rightarrow> Inl e
           | Inr error_text \<Rightarrow>
               Inl (Rejected_Error (''OpenCode API error: '' @ Number_toString (int st) @ '' ''
                                      @ status_text @ '' - '' @ error_text)))
      | Json_rejects e \<Rightarrow> Inl e
      | Json_null \<Rightarrow> Inl (Rejected_Error type_error)
      | Json_data None \<Rightarrow> Inl (Rejected_Error ''Invalid response format from OpenCode API'')
      | Json_data (Some []) \<Rightarrow> Inl (Rejected_Error ''Invalid response format from OpenCode API'')
      | Json_data (Some (No_message # _)) \<Rightarrow> Inl (Rejected_Error type_error)
      | Json_data (Some (Message reply # _)) \<Rightarrow> Inr reply)"

text \<open>
  The \<open>catch\<close> block: the message of an \<open>Error\<close> behind the marker, or the marker
  for a thrown value that is no \<open>Error\<close>.
\<close>

definition callOpenCodeAPI_catch :: "rejection \<Rightarrow> string" where
  "callOpenCodeAPI_catch error =
     (case error of
        Rejected_Error msg \<Rightarrow> error_marker @ msg
      | Rejected_other \<Rightarrow> unknown_error_marker)"

definition callOpenCodeAPI ::
  "string \<Rightarrow> upstream \<Rightarrow> message list \<Rightarrow> js_value \<times> upstream" where
  "callOpenCodeAPI type_error up msgs =
     (let request_body = \<lparr>req_model = defaultModel,
                           req_messages = map (\<lambda>msg. \<lparr>role = role msg, content = content msg\<rparr>) msgs,
                           req_stream = False\<rparr>;
          (outcome, up') = fetch up request_body
      in (case callOpenCodeAPI_try type_error outcome of
            Inr reply \<Rightarrow> reply
          | Inl error \<Rightarrow> JS_string (callOpenCodeAPI_catch error),
          up'))"

text \<open>
  \<open>sendPrompt\<close>. Two clock readings are passed on to the two \<open>addMessage\<close> calls. The
  result is the \<open>text\<close> of the \<open>PromptResponse\<close> or the error thrown, with the store and
  the upstream as the call leaves them.
\<close>

definition sendPrompt ::
  "string \<Rightarrow> upstream \<Rightarrow> SessionStore \<Rightarrow> string \<Rightarrow> string \<Rightarrow> string \<Rightarrow> int \<Rightarrow> int
     \<Rightarrow> (js_error + js_value) \<times> SessionStore \<times> upstream" where
  "sendPrompt type_error up store sid uid prompt now_user now_assistant =
     (case Store_getSession store sid uid of
        None \<Rightarrow> (Inl (Error ''Session not found or access denied''), store, up)
      | Some _ \<Rightarrow>
          (case Store_addMessage store sid uid
                  \<lparr>role = ''user'', content = JS_string prompt\<rparr> now_user of
             Inl e \<Rightarrow> (Inl e, store, up)
           | Inr store1 \<Rightarrow>
               (let conversationHistory = Store_getConversationHistory store1 sid uid;
                    (response, up1) = callOpenCodeAPI type_error up conversationHistory
                in (case Store_addMessage store1 sid uid
                           \<lparr>role = ''assistant'', content = response\<rparr> now_assistant of
                      Inl e \<Rightarrow> (Inl e, store1, up1)
                    | Inr store2 \<Rightarrow> (Inr response, store2, up1)))))"

section \<open>Token verification\<close>

text \<open>
  The claims of a decoded token payload that the verifiers read: \<open>exp\<close>, \<open>iss\<close>,
  \<open>sub\<close>, each present with a value of its declared type or absent (\<open>undefined\<close>).
\<close>

record payload =
  payload_exp :: "int option"
  payload_iss :: "string option"
  payload_sub :: "string option"

text \<open>JavaScript truthiness of a number and of a string that may be \<open>undefined\<close>.\<close>

definition truthy_number :: "int option \<Rightarrow> bool" where
  "truthy_number v = (case v of None \<Rightarrow> False | Some n \<Rightarrow> n \<noteq> 0)"

definition truthy_string :: "string option \<Rightarrow> bool" where
  "truthy_string v = (case v of None \<Rightarrow> False | Some s \<Rightarrow> s \<noteq> [])"

text \<open>\<open>payload.exp < now\<close>: a comparison with \<open>undefined\<close> is false.\<close>

definition exp_before :: "int option \<Rightarrow> int \<Rightarrow> bool" where
  "exp_before v now = (case v of None \<Rightarrow> False | Some e \<Rightarrow> e < now)"

text \<open>\<open>String.prototype.split\<close> on a one-character separator.\<close>

fun String_split :: "char \<Rightarrow> string \<Rightarrow> string list" where
  "String_split sep [] = [[]]"
| "String_split sep (c # cs) =
     (if c = sep then [] # String_split sep cs
      else (case String_split sep cs of
              p # ps \<Rightarrow> (c # p) # ps
            | [] \<Rightarrow> [[c]]))"

fun String_includes :: "string \<Rightarrow> string \<Rightarrow> bool" where
  "String_includes [] sub = (sub = [])"
| "String_includes (c # cs) sub = (prefix sub (c # cs) \<or> String_includes cs sub)"

text \<open>
  The padding loop \<open>while (base64Payload.length % 4) base64Payload += '='\<close>, after
  the base64url alphabet has been mapped to the base64 one.
\<close>

function pad_base64 :: "string \<Rightarrow> string" where
  "pad_base64 s = (if length s mod 4 \<noteq> 0 then pad_base64 (s @ ''='') else s)"
  by pat_completeness auto
termination
  by (relation "measure (\<lambda>s. 3 - (length s + 3) mod 4)") (auto, presburger)

declare pad_base64.simps [simp del]

definition base64url_to_base64 :: "string \<Rightarrow> string" where
  "base64url_to_base64 seg =
     pad_base64 (map (\<lambda>c. if c = CHR ''_'' then CHR ''/'' else c)
                     (map (\<lambda>c. if c = CHR ''-'' then CHR ''+'' else c) seg))"

text \<open>
  \<open>atob\<close>, \<open>TextDecoder\<close>, \<open>Buffer.from\<close> and \<open>JSON.parse\<close> belong to the platform: the
  verifiers take the decoder as a parameter, from the encoded segment to the payload, or
  to the text of the error it throws (a payload of \<open>null\<close> counts as such, since the first
  property read on it throws).

  \<open>verifyClerkToken\<close> of auth/clerk.ts; \<open>null\<close> and an \<open>undefined\<close> subject are \<open>None\<close>.
\<close>

definition verifyClerkToken ::
  "(string \<Rightarrow> string + payload) \<Rightarrow> int \<Rightarrow> string \<Rightarrow> string option" where
  "verifyClerkToken atob_json now_ms authHeader =
     (if authHeader = [] \<or> \<not> prefix ''Bearer '' authHeader then None
      else (case String_split CHR ''.'' (drop 7 authHeader) of
              [header, seg, signature] \<Rightarrow>
                (case atob_json (base64url_to_base64 seg) of
                   Inl _ \<Rightarrow> None
                 | Inr p \<Rightarrow>
                     if exp_before (payload_exp p) (now_ms div 1000) then None
                     else (case payload_iss p of
                             None \<Rightarrow> None
                           | Some iss \<Rightarrow>
                               if \<not> prefix ''https://clerk.'' iss then None
                               else payload_sub p))
            | _ \<Rightarrow> None))"

section \<open>HTTP layer of the Worker\<close>

text \<open>A JSON response \<open>c.json({...}, status)\<close>: the status and the fields of the body.\<close>

datatype json_value = JString string | JBoolean bool | JNull | JOther string

record http_response =
  resp_status :: nat
  resp_body :: "(string \<times> json_value) list"

datatype auth_step = Respond http_response | Next string

definition unauthorized :: "string \<Rightarrow> http_response" where
  "unauthorized dbg =
     \<lparr>resp_status = 401,
      resp_body = [(''error'', JString ''Unauthorized''), (''debug'', JString dbg)]\<rparr>"

text \<open>
  \<open>authMiddleware\<close> of the Worker in session-manager.ts. The header is
  \<open>c.req.header('Authorization') || ''\<close>; the payload is decoded with
  \<open>Buffer.from(parts[1], 'base64url')\<close>. \<open>Next userId\<close> stands for
  \<open>c.set('userId', userId); await next()\<close>.
\<close>

definition Worker_authMiddleware ::
  "(string \<Rightarrow> string + payload) \<Rightarrow> int \<Rightarrow> string option \<Rightarrow> auth_step" where
  "Worker_authMiddleware base64url_json now_ms header =
     (let authHeader = (case header of None \<Rightarrow> [] | Some h \<Rightarrow> h)
      in if authHeader = [] \<or> \<not> prefix ''Bearer '' authHeader
         then Respond (unauthorized ''no_bearer'')
         else (case String_split CHR ''.'' (drop 7 authHeader) of
                 [header_seg, seg, signature] \<Rightarrow>
                   (case base64url_json seg of
                      Inl _ \<Rightarrow> Respond (unauthorized ''verify_error'')
                    | Inr p \<Rightarrow>
                        if truthy_number (payload_exp p)
                           \<and> exp_before (payload_exp p) (now_ms div 1000)
                        then Respond (unauthorized ''token_expired'')
                        else (case payload_iss p of
                                None \<Rightarrow> Respond (unauthorized ''invalid_issuer'')
                              | Some iss \<Rightarrow>
                                  if iss = [] \<or> (\<not> String_includes iss ''clerk.''
                                                \<and> \<not> String_includes iss ''.clerk.accounts.'')
                                  then Respond (unauthorized ''invalid_issuer'')
                                  else (case payload_sub p of
                                          None \<Rightarrow> Respond (unauthorized ''no_user_id'')
                                        | Some sub \<Rightarrow>
                                            if sub = [] then Respond (unauthorized ''no_user_id'')
                                            else Next sub)))
               | _ \<Rightarrow> Respond (unauthorized ''invalid_jwt_format'')))"

text \<open>
  \<open>authMiddleware\<close> of worker-hono.ts: the payload is decoded as in
  \<open>verifyClerkToken\<close>, the expiry test has no truthiness guard, a decoding error is
  echoed as \<open>debug: String(error)\<close>, and a rejected issuer is echoed when present.
\<close>

definition Hono_authMiddleware ::
  "(string \<Rightarrow> string + payload) \<Rightarrow> int \<Rightarrow> string option \<Rightarrow> auth_step" where
  "Hono_authMiddleware atob_json now_ms header =
     (let authHeader = (case header of None \<Rightarrow> [] | Some h \<Rightarrow> h)
      in if authHeader = [] \<or> \<not> prefix ''Bearer '' authHeader
         then Respond (unauthorized ''no_bearer'')
         else (case String_split CHR ''.'' (drop 7 authHeader) of
                 [header_seg, seg, signature] \<Rightarrow>
                   (case atob_json (base64url_to_base64 seg) of
                      Inl err \<Rightarrow> Respond (unauthorized err)
                    | Inr p \<Rightarrow>
                        if exp_before (payload_exp p) (now_ms div 1000)
                        then Respond (unauthorized ''token_expired'')
                        else (case payload_iss p of
                                None \<Rightarrow> Respond (unauthorized ''invalid_issuer'')
                              | Some iss \<Rightarrow>
                                  if iss = [] \<or> (\<not> String_includes iss ''clerk.''
                                                \<and> \<not> String_includes iss ''.clerk.accounts.'')
                                  then Respond
                                         \<lparr>resp_status = 401,
                                          resp_body = [(''error'', JString ''Unauthorized''),
                                                       (''debug'', JString ''invalid_issuer''),
                                                       (''iss'', JString iss)]\<rparr>
                                  else (case payload_sub p of
                                          None \<Rightarrow> Respond (unauthorized ''no_user_id'')
                                        | Some sub \<Rightarrow>
                                            if sub = [] then Respond (unauthorized ''no_user_id'')
                                            else Next sub)))
               | _ \<Rightarrow> Respond (unauthorized ''invalid_jwt_format'')))"

text \<open>
  The body of \<open>POST /api/prompt\<close>, \<open>{ prompt: string; sessionId?: string }\<close>, each field
  present or absent, and the readings the handler takes from its environment: the clock
  at each \<open>Date.now()\<close>, the random suffix of a Durable Object session id, and the
  engine's \<open>TypeError\<close> message.
\<close>

record prompt_body =
  body_prompt :: "string option"
  body_sessionId :: "string option"

record request_env =
  env_now_id :: int
  env_random :: string
  env_now_created :: int
  env_now_user :: int
  env_now_assistant :: int
  env_type_error :: string

text \<open>
  \<open>c.json({ success: true, response: response.text, sessionId: actualSessionId })\<close>:
  \<open>JSON.stringify\<close> leaves out a field whose value is \<open>undefined\<close>.
\<close>

definition prompt_success :: "js_value \<Rightarrow> string \<Rightarrow> http_response" where
  "prompt_success reply sid =
     \<lparr>resp_status = 200,
      resp_body = [(''success'', JBoolean True)]
                  @ (case reply of
                       JS_string text \<Rightarrow> [(''response'', JString text)]
                     | JS_null \<Rightarrow> [(''response'', JNull)]
                     | JS_undefined \<Rightarrow> []
                     | JS_other json \<Rightarrow> [(''response'', JOther json)])
                  @ [(''sessionId'', JString sid)]\<rparr>"

definition prompt_failure :: "string \<Rightarrow> http_response" where
  "prompt_failure errorMessage =
     \<lparr>resp_status = 500,
      resp_body = [(''success'', JBoolean False), (''error'', JString errorMessage)]\<rparr>"

text \<open>
  The handler \<open>apiRoutes.post('/prompt', ...)\<close> of the Worker, after the middleware has
  set \<open>userId\<close>. \<open>relay_prompt\<close> is its last step, the call of \<open>sendPrompt\<close> under the
  handler's \<open>try\<close>, once \<open>actualSessionId\<close> is known.
\<close>

definition relay_prompt ::
  "request_env \<Rightarrow> upstream \<Rightarrow> SessionStore \<Rightarrow> string \<Rightarrow> string \<Rightarrow> string
     \<Rightarrow> http_response \<times> SessionStore \<times> upstream" where
  "relay_prompt env up store actualSessionId uid p =
     (case sendPrompt (env_type_error env) up store actualSessionId uid p
             (env_now_user env) (env_now_assistant env) of
        (Inl (Error errorMessage), store', up') \<Rightarrow> (prompt_failure errorMessage, store', up')
      | (Inr reply, store', up') \<Rightarrow> (prompt_success reply actualSessionId, store', up'))"

definition post_prompt ::
  "request_env \<Rightarrow> upstream \<Rightarrow> SessionStore \<Rightarrow> string \<Rightarrow> prompt_body
     \<Rightarrow> http_response \<times> SessionStore \<times> upstream" where
  "post_prompt env up store uid body =
     (if \<not> truthy_string (body_prompt body)
      then (\<lparr>resp_status = 400, resp_body = [(''error'', JString ''prompt is required'')]\<rparr>,
            store, up)
      else (let p = (case body_prompt body of Some t \<Rightarrow> t | None \<Rightarrow> [])
            in if truthy_string (body_sessionId body)
               then (let sid = (case body_sessionId body of Some t \<Rightarrow> t | None \<Rightarrow> [])
                     in (case Store_getSession store sid uid of
                           None \<Rightarrow>
                             (\<lparr>resp_status = 404,
                               resp_body = [(''error'', JString ''Session not found'')]\<rparr>,
                              store, up)
                         | Some _ \<Rightarrow> relay_prompt env up store sid uid p))
               else (case Store_createSession store (env_now_id env) (env_random env)
                            (env_now_created env) uid of
                       Inl (Error errorMessage) \<Rightarrow> (prompt_failure errorMessage, store, up)
                     | Inr (s, store') \<Rightarrow> relay_prompt env up store' (session_id s) uid p)))"

text \<open>The route behind its middleware: \<open>apiRoutes.use(authMiddleware)\<close>.\<close>

definition Worker_POST_prompt ::
  "(string \<Rightarrow> string + payload) \<Rightarrow> int \<Rightarrow> string option \<Rightarrow> request_env \<Rightarrow> upstream
     \<Rightarrow> SessionStore \<Rightarrow> prompt_body \<Rightarrow> http_response \<times> SessionStore \<times> upstream" where
  "Worker_POST_prompt base64url_json now_ms header env up store body =
     (case Worker_authMiddleware base64url_json now_ms header of
        Respond r \<Rightarrow> (r, store, up)
      | Next uid \<Rightarrow> post_prompt env up store uid body)"

section \<open>Freshly constructed stores\<close>

text \<open>
  \<open>new SessionManager()\<close>, \<open>new InMemorySessionStore()\<close>, and the Durable Object on a
  given SQLite handle after \<open>initDB\<close> has created its empty tables.
\<close>

definition SessionManager_new :: SessionManager where
  "SessionManager_new = \<lparr>sm_sessions = [], idCounter = 0\<rparr>"

definition InMemory_new :: InMemorySessionStore where
  "InMemory_new = \<lparr>sessions = [], messages = [], sessionCounter = 0\<rparr>"

definition Durable_new :: "sql_engine \<Rightarrow> SessionDurableObject" where
  "Durable_new engine =
     \<lparr>sql = engine, sessions_table = [], messages_table = [], messages_seq = 0\<rparr>"

section \<open>Histories of store calls\<close>

text \<open>
  The calls that change a store, and a store after a sequence of them, made by any
  users in any order. A call that throws leaves the store as it was. The reading calls
  (\<open>getSession\<close>, \<open>listUserSessions\<close>, \<open>getConversationHistory\<close>) change nothing.
\<close>

datatype store_call =
    Call_createSession int string int string
  | Call_deleteSession string string
  | Call_addMessage string string message int

fun InMemory_call :: "InMemorySessionStore \<Rightarrow> store_call \<Rightarrow> InMemorySessionStore" where
  "InMemory_call st (Call_createSession now_id rnd now_created uid) =
     snd (InMemory_createSession st now_id now_created uid)"
| "InMemory_call st (Call_deleteSession sid uid) = snd (InMemory_deleteSession st sid uid)"
| "InMemory_call st (Call_addMessage sid uid m now) =
     (case InMemory_addMessage st sid uid m of Inl _ \<Rightarrow> st | Inr st' \<Rightarrow> st')"

fun SessionManager_call :: "SessionManager \<Rightarrow> store_call \<Rightarrow> SessionManager" where
  "SessionManager_call sm (Call_createSession now_id rnd now_created uid) =
     snd (SessionManager_createSession sm now_created uid)"
| "SessionManager_call sm (Call_deleteSession sid uid) =
     snd (SessionManager_deleteSession sm sid uid)"
| "SessionManager_call sm (Call_addMessage sid uid m now) = sm"

fun Durable_call :: "SessionDurableObject \<Rightarrow> store_call \<Rightarrow> SessionDurableObject" where
  "Durable_call d (Call_createSession now_id rnd now_created uid) =
     (case Durable_createSession d now_id rnd now_created uid of
        Inl _ \<Rightarrow> d | Inr (_, d') \<Rightarrow> d')"
| "Durable_call d (Call_deleteSession sid uid) = snd (Durable_deleteSession d sid uid)"
| "Durable_call d (Call_addMessage sid uid m now) =
     (case Durable_addMessage d sid uid m now of Inl _ \<Rightarrow> d | Inr d' \<Rightarrow> d')"

text \<open>The value of a decimal digit, to read a rendered number back.\<close>

definition digit_val :: "char \<Rightarrow> nat" where
  "digit_val c = of_char c - 48"

text \<open>
  What a history of calls keeps true of a session \<open>s\<close> created with counter value \<open>c\<close>:
  the counter has moved past \<open>c\<close>, and the id of \<open>s\<close> is either free or still bound to \<open>s\<close>.
\<close>

definition InMemory_kept :: "string \<Rightarrow> nat \<Rightarrow> session \<Rightarrow> InMemorySessionStore \<Rightarrow> bool" where
  "InMemory_kept t c s st \<longleftrightarrow>
     c < sessionCounter st
   \<and> session_id s = ''opencode-'' @ t @ ''-'' @ Number_toString (int c)
   \<and> (Map_get (sessions st) (session_id s) = None \<or> Map_get (sessions st) (session_id s) = Some s)"

definition SessionManager_kept :: "nat \<Rightarrow> session \<Rightarrow> SessionManager \<Rightarrow> bool" where
  "SessionManager_kept c s sm \<longleftrightarrow>
     c < idCounter sm
   \<and> session_id s = ''session-'' @ Number_toString (int c)
   \<and> (Map_get (sm_sessions sm) (session_id s) = None
      \<or> Map_get (sm_sessions sm) (session_id s) = Some s)"

section \<open>Concrete inputs\<close>

text \<open>
  Tokens in the shape of the ones the repository's tests build: the header segment of
  \<open>{"alg":"RS256","typ":"JWT"}\<close>, a payload segment, and the signature
  \<open>signature\<close>. The payload segments are the base64url encodings of
  \<open>{"sub":"user_123","iss":"https://clerk.example.com","exp":E,"iat":...}\<close> with
  \<open>exp\<close> 1000, 999, 0, absent, and 9999999999 (the test suite's own token); the two
  decoders below map each segment, as the platform's decoder would, to its payload and
  everything else to an error.
\<close>

definition example_header_segment :: string where
  "example_header_segment = ''eyJhbGciOiJSUzI1NiIsInR5cCI6IkpXVCJ9''"

definition segment_exp_1000 :: string where
  "segment_exp_1000 =
     ''eyJzdWIiOiJ1c2VyXzEyMyIsImlzcyI6Imh0dHBzOi8vY2xlcmsuZXhhbXBsZS5jb20iLCJleHAiOjEwMDAsImlhdCI6OTAwfQ''"

definition segment_exp_999 :: string where
  "segment_exp_999 =
     ''eyJzdWIiOiJ1c2VyXzEyMyIsImlzcyI6Imh0dHBzOi8vY2xlcmsuZXhhbXBsZS5jb20iLCJleHAiOjk5OSwiaWF0Ijo5MDB9''"

definition segment_exp_0 :: string where
  "segment_exp_0 =
     ''eyJzdWIiOiJ1c2VyXzEyMyIsImlzcyI6Imh0dHBzOi8vY2xlcmsuZXhhbXBsZS5jb20iLCJleHAiOjAsImlhdCI6MH0''"

definition segment_no_exp :: string where
  "segment_no_exp =
     ''eyJzdWIiOiJ1c2VyXzEyMyIsImlzcyI6Imh0dHBzOi8vY2xlcmsuZXhhbXBsZS5jb20iLCJpYXQiOjkwMH0''"

definition segment_exp_far :: string where
  "segment_exp_far =
     ''eyJzdWIiOiJ1c2VyXzEyMyIsImlzcyI6Imh0dHBzOi8vY2xlcmsuZXhhbXBsZS5jb20iLCJleHAiOjk5OTk5OTk5OTksImlhdCI6MTIzNDU2Nzg5MH0''"

definition example_payload :: "int option \<Rightarrow> payload" where
  "example_payload e =
     \<lparr>payload_exp = e, payload_iss = Some ''https://clerk.example.com'',
      payload_sub = Some ''user_123''\<rparr>"

definition example_payloads :: "(string \<times> payload) list" where
  "example_payloads =
     [(segment_exp_1000, example_payload (Some 1000)),
      (segment_exp_999, example_payload (Some 999)),
      (segment_exp_0, example_payload (Some 0)),
      (segment_no_exp, example_payload None),
      (segment_exp_far, example_payload (Some 9999999999))]"

definition example_base64url_json :: "string \<Rightarrow> string + payload" where
  "example_base64url_json seg =
     (case map_of example_payloads seg of
        Some p \<Rightarrow> Inr p
      | None \<Rightarrow> Inl ''SyntaxError: Unexpected token in JSON'')"

definition example_atob_json :: "string \<Rightarrow> string + payload" where
  "example_atob_json b64 =
     (case map_of (map (\<lambda>(seg, p). (base64url_to_base64 seg, p)) example_payloads) b64 of
        Some p \<Rightarrow> Inr p
      | None \<Rightarrow> Inl ''InvalidCharacterError: Invalid character'')"

definition bearer :: "string \<Rightarrow> string" where
  "bearer seg = ''Bearer '' @ example_header_segment @ ''.'' @ seg @ ''.signature''"

text \<open>
  A request environment; an upstream that answers every request with one choice, one
  whose choice has the content \<open>null\<close>, and one that answers with status 502; a SQLite
  handle with the constraint messages of the Workers runtime (the examples bind strings
  and \<open>null\<close> only, so that its \<open>bind_value\<close> is never called); and the in-memory
  store after \<open>user-1\<close> has created a session.
\<close>

definition example_env :: request_env where
  "example_env =
     \<lparr>env_now_id = 1000, env_random = ''k3x9q1z7a'', env_now_created = 1001,
      env_now_user = 1002, env_now_assistant = 1003,
      env_type_error = ''Cannot read properties of undefined''\<rparr>"

definition example_upstream_ok :: upstream where
  "example_upstream_ok =
     \<lparr>respond = (\<lambda>req. Json_data (Some [Message (JS_string ''Hi there'')])),
      received = []\<rparr>"

definition example_upstream_null :: upstream where
  "example_upstream_null =
     \<lparr>respond = (\<lambda>req. Json_data (Some [Message JS_null])), received = []\<rparr>"

definition example_engine :: sql_engine where
  "example_engine =
     \<lparr>primary_key_error =
        ''UNIQUE constraint failed: sessions.id: SQLITE_CONSTRAINT (extended: SQLITE_CONSTRAINT_PRIMARYKEY)'',
      not_null_error =
        ''NOT NULL constraint failed: messages.content: SQLITE_CONSTRAINT (extended: SQLITE_CONSTRAINT_NOTNULL)'',
      bind_value = (\<lambda>v. Inr None)\<rparr>"

definition example_upstream_down :: upstream where
  "example_upstream_down =
     \<lparr>respond = (\<lambda>req. Not_ok 502 ''Bad Gateway'' (Inr ''upstream unavailable'')),
      received = []\<rparr>"


section \<open>Facts about the Map model\<close>

lemma Map_get_set: "Map_get (Map_set m k v) k' = (if k' = k then Some v else Map_get m k')"
  by (simp add: Map_get_def Map_set_def update_conv')

lemma Map_get_delete: "Map_get (Map_delete m k) k' = (if k' = k then None else Map_get m k')"
  by (simp add: Map_get_def Map_delete_def delete_conv')

section \<open>Evaluation on concrete inputs\<close>

lemma decimal_eval:
  "decimal 0 = ''0''"
  "decimal (Suc 0) = ''1''"
  "decimal (numeral k) =
     (if numeral k < (10::nat) then [digit_char (numeral k)]
      else decimal (numeral k div 10) @ [digit_char (numeral k mod 10)])"
  by (simp_all add: decimal.simps [of 0] decimal.simps [of "Suc 0"] decimal.simps [of "numeral k"]
      digit_char_def)

lemmas eval_defs =
  InMemory_new_def SessionManager_new_def Durable_new_def
  InMemory_createSession_def InMemory_getSession_def InMemory_deleteSession_def
  InMemory_addMessage_def InMemory_getConversationHistory_def InMemory_history_def
  InMemory_listUserSessions_def
  SessionManager_createSession_def SessionManager_getSession_def SessionManager_deleteSession_def
  Durable_createSession_def Durable_getSession_def Durable_deleteSession_def
  Durable_addMessage_def Durable_getConversationHistory_def Durable_listUserSessions_def
  session_of_row_def message_of_row_def order_by_asc_def order_by_desc_def
  sql_bind_def example_engine_def
  Map_get_def Map_set_def Map_delete_def Map_values_def
  Number_toString_def decimal_eval digit_char_def Let_def

lemmas service_defs =
  sendPrompt_def callOpenCodeAPI_def callOpenCodeAPI_try_def callOpenCodeAPI_catch_def fetch_def
  post_prompt_def relay_prompt_def Worker_POST_prompt_def truthy_string_def
  prompt_success_def prompt_failure_def
  example_env_def example_upstream_ok_def example_upstream_null_def example_upstream_down_def
  defaultModel_def



section \<open>Rendered numbers and session ids\<close>

lemma less_10_cases:
  "d < (10::nat) \<Longrightarrow> d = 0 \<or> d = 1 \<or> d = 2 \<or> d = 3 \<or> d = 4 \<or> d = 5 \<or> d = 6 \<or> d = 7 \<or> d = 8 \<or> d = 9"
  by arith

lemma digit_val_digit_char: "d < 10 \<Longrightarrow> digit_val (digit_char d) = d"
  by (drule less_10_cases) (auto simp: digit_val_def digit_char_def)

lemma digit_char_not_dash: "d < 10 \<Longrightarrow> CHR ''-'' \<noteq> digit_char d"
  by (drule less_10_cases) (auto simp: digit_char_def)

lemma undecimal_decimal: "foldl (\<lambda>a c. 10 * a + digit_val c) 0 (decimal n) = n"
proof (induction n rule: decimal.induct)
  case (1 n)
  show ?case
  proof (cases "n < 10")
    case True
    then show ?thesis
      by (subst decimal.simps) (simp add: digit_val_digit_char)
  next
    case False
    with 1 show ?thesis
      by (subst decimal.simps) (simp add: digit_val_digit_char)
  qed
qed

lemma decimal_inj: "decimal n = decimal m \<Longrightarrow> n = m"
  by (metis undecimal_decimal)

lemma dash_notin_decimal: "CHR ''-'' \<notin> set (decimal n)"
proof (induction n rule: decimal.induct)
  case (1 n)
  show ?case
  proof (cases "n < 10")
    case True
    then show ?thesis
      by (subst decimal.simps) (simp add: digit_char_not_dash)
  next
    case False
    with 1 show ?thesis
      by (subst decimal.simps) (simp add: digit_char_not_dash)
  qed
qed

lemma after_last_separator:
  assumes "xs @ c # ys = xs' @ c # ys'" and "c \<notin> set ys" and "c \<notin> set ys'"
  shows "ys = ys'"
proof -
  have "rev ys @ c # rev xs = rev ys' @ c # rev xs'"
    using assms(1) by (metis rev_append rev.simps(2) append_assoc append_Cons append_Nil)
  then have "takeWhile (\<lambda>x. x \<noteq> c) (rev ys @ c # rev xs)
           = takeWhile (\<lambda>x. x \<noteq> c) (rev ys' @ c # rev xs')"
    by simp
  moreover have "takeWhile (\<lambda>x. x \<noteq> c) (rev ys @ c # rev xs) = rev ys"
    using assms(2) by (auto simp add: takeWhile_tail)
  moreover have "takeWhile (\<lambda>x. x \<noteq> c) (rev ys' @ c # rev xs') = rev ys'"
    using assms(3) by (auto simp add: takeWhile_tail)
  ultimately show ?thesis by simp
qed

lemma InMemory_id_inj:
  assumes "''opencode-'' @ Number_toString a @ ''-'' @ Number_toString (int c)
         = ''opencode-'' @ Number_toString a' @ ''-'' @ Number_toString (int c')"
  shows "c = c'"
proof -
  have "(''opencode-'' @ Number_toString a) @ CHR ''-'' # decimal c
      = (''opencode-'' @ Number_toString a') @ CHR ''-'' # decimal c'"
    using assms by (simp add: Number_toString_def)
  then have "decimal c = decimal c'"
    by (rule after_last_separator) (simp_all add: dash_notin_decimal)
  then show ?thesis by (rule decimal_inj)
qed

lemma SessionManager_id_inj:
  assumes "''session-'' @ Number_toString (int c) = ''session-'' @ Number_toString (int c')"
  shows "c = c'"
  using assms by (simp add: Number_toString_def decimal_inj)

section \<open>Sessions of other users: the in-memory store\<close>

lemma InMemory_createSession_stored:
  assumes "InMemory_createSession st0 t1 t2 u1 = (s, st1)"
  shows "Map_get (sessions st1) (session_id s) = Some s" and "userId s = u1"
    and "session_id s = ''opencode-'' @ Number_toString t1 @ ''-'' @ Number_toString (int (sessionCounter st0))"
    and "sessionCounter st1 = sessionCounter st0 + 1"
  using assms by (auto simp: InMemory_createSession_def Let_def Map_get_set)

lemma InMemory_kept_call:
  assumes "InMemory_kept (Number_toString t) c s st"
  shows "InMemory_kept (Number_toString t) c s (InMemory_call st call)"
proof (cases call)
  case (Call_createSession now_id rnd now_created uid)
  have "''opencode-'' @ Number_toString now_id @ ''-'' @ Number_toString (int (sessionCounter st))
        \<noteq> session_id s"
  proof
    assume "''opencode-'' @ Number_toString now_id @ ''-'' @ Number_toString (int (sessionCounter st))
            = session_id s"
    then have "sessionCounter st = c"
      using assms InMemory_id_inj unfolding InMemory_kept_def by metis
    with assms show False by (simp add: InMemory_kept_def)
  qed
  with assms Call_createSession show ?thesis
    by (auto simp: InMemory_kept_def InMemory_createSession_def Let_def Map_get_set)
next
  case (Call_deleteSession sid uid)
  with assms show ?thesis
    by (auto simp: InMemory_kept_def InMemory_deleteSession_def Map_get_delete
        split: option.splits)
next
  case (Call_addMessage sid uid m now)
  with assms show ?thesis
    by (auto simp: InMemory_kept_def InMemory_addMessage_def split: option.splits)
qed

lemma InMemory_kept_calls:
  "InMemory_kept (Number_toString t) c s st \<Longrightarrow>
   InMemory_kept (Number_toString t) c s (foldl InMemory_call st calls)"
  by (induction calls arbitrary: st) (simp_all add: InMemory_kept_call)

lemma InMemory_absent:
  assumes "Map_get (sessions st) sid = None"
  shows "InMemory_getSession st sid u2 = None"
    and "InMemory_deleteSession st sid u2 = (False, st)"
    and "InMemory_getConversationHistory st sid u2 = []"
  using assms
  by (simp_all add: InMemory_getSession_def InMemory_deleteSession_def
      InMemory_getConversationHistory_def)

lemma InMemory_not_owner:
  assumes "Map_get (sessions st) sid = Some s" and "userId s \<noteq> u2"
  shows "InMemory_getSession st sid u2 = None"
    and "InMemory_deleteSession st sid u2 = (False, st)"
    and "InMemory_getConversationHistory st sid u2 = []"
  using assms
  by (simp_all add: InMemory_getSession_def InMemory_deleteSession_def
      InMemory_getConversationHistory_def)

lemma InMemory_isolation:
  assumes "u1 \<noteq> u2" and "InMemory_createSession st0 t1 t2 u1 = (s, st1)"
    and "st = foldl InMemory_call st1 calls"
  shows "InMemory_getSession st (session_id s) u2 = None
       \<and> InMemory_deleteSession st (session_id s) u2 = (False, st)
       \<and> InMemory_getConversationHistory st (session_id s) u2 = []"
proof -
  have "InMemory_kept (Number_toString t1) (sessionCounter st0) s st1"
    using InMemory_createSession_stored[OF assms(2)] by (simp add: InMemory_kept_def)
  then have "InMemory_kept (Number_toString t1) (sessionCounter st0) s st"
    unfolding assms(3) by (rule InMemory_kept_calls)
  then consider "Map_get (sessions st) (session_id s) = None"
    | "Map_get (sessions st) (session_id s) = Some s"
    by (auto simp: InMemory_kept_def)
  then show ?thesis
  proof cases
    case 1
    then show ?thesis by (simp add: InMemory_absent)
  next
    case 2
    moreover have "userId s \<noteq> u2"
      using assms(1) InMemory_createSession_stored(2)[OF assms(2)] by simp
    ultimately show ?thesis by (simp add: InMemory_not_owner)
  qed
qed

section \<open>Sessions of other users: SessionManager\<close>

lemma SessionManager_kept_call:
  assumes "SessionManager_kept c s sm"
  shows "SessionManager_kept c s (SessionManager_call sm call)"
proof (cases call)
  case (Call_createSession now_id rnd now_created uid)
  have "''session-'' @ Number_toString (int (idCounter sm)) \<noteq> session_id s"
  proof
    assume "''session-'' @ Number_toString (int (idCounter sm)) = session_id s"
    then have "idCounter sm = c"
      using assms SessionManager_id_inj unfolding SessionManager_kept_def by metis
    with assms show False by (simp add: SessionManager_kept_def)
  qed
  with assms Call_createSession show ?thesis
    by (auto simp: SessionManager_kept_def SessionManager_createSession_def Let_def Map_get_set)
next
  case (Call_deleteSession sid uid)
  with assms show ?thesis
    by (auto simp: SessionManager_kept_def SessionManager_deleteSession_def Map_get_delete
        split: option.splits)
next
  case (Call_addMessage sid uid m now)
  with assms show ?thesis by simp
qed

lemma SessionManager_kept_calls:
  "SessionManager_kept c s sm \<Longrightarrow> SessionManager_kept c s (foldl SessionManager_call sm calls)"
  by (induction calls arbitrary: sm) (simp_all add: SessionManager_kept_call)

lemma SessionManager_isolation:
  assumes "u1 \<noteq> u2" and "SessionManager_createSession sm0 now u1 = (s, sm1)"
    and "sm = foldl SessionManager_call sm1 calls"
  shows "SessionManager_getSession sm (session_id s) u2 = None
       \<and> snd (SessionManager_deleteSession sm (session_id s) u2) = sm"
proof -
  have created: "userId s = u1" "SessionManager_kept (idCounter sm0) s sm1"
    using assms(2)
    by (auto simp: SessionManager_createSession_def SessionManager_kept_def Let_def Map_get_set)
  have "SessionManager_kept (idCounter sm0) s sm"
    unfolding assms(3) using created(2) by (rule SessionManager_kept_calls)
  then have "Map_get (sm_sessions sm) (session_id s) = None
           \<or> Map_get (sm_sessions sm) (session_id s) = Some s"
    unfolding SessionManager_kept_def by blast
  with assms(1) created(1) show ?thesis
    by (auto simp: SessionManager_getSession_def SessionManager_deleteSession_def)
qed

section \<open>Sessions of other users: the Durable Object\<close>

lemma Durable_call_distinct:
  assumes "distinct (map row_id (sessions_table d))"
  shows "distinct (map row_id (sessions_table (Durable_call d call)))"
proof (cases call)
  case (Call_createSession now_id rnd now_created uid)
  with assms show ?thesis
    by (auto simp: Durable_createSession_def Let_def)
next
  case (Call_deleteSession sid uid)
  with assms show ?thesis
    by (auto simp: Durable_deleteSession_def distinct_map_filter split: option.splits)
next
  case (Call_addMessage sid uid m now)
  with assms show ?thesis
    by (auto simp: Durable_addMessage_def split: option.splits sum.splits)
qed

lemma Durable_calls_distinct:
  "distinct (map row_id (sessions_table d)) \<Longrightarrow>
   distinct (map row_id (sessions_table (foldl Durable_call d calls)))"
  by (induction calls arbitrary: d) (simp_all add: Durable_call_distinct)

lemma Durable_createSession_distinct:
  assumes "distinct (map row_id (sessions_table d0))"
    and "Durable_createSession d0 now_id rnd now_created u1 = Inr (s, d1)"
  shows "distinct (map row_id (sessions_table d1))"
  using assms by (auto simp: Durable_createSession_def Let_def split: if_splits)

lemma Durable_getSession_SomeD:
  assumes "Durable_getSession d sid u = Some s"
  shows "\<exists>r \<in> set (sessions_table d). row_id r = sid \<and> user_id r = u"
proof -
  from assms obtain r rs where "filter (\<lambda>r. row_id r = sid \<and> user_id r = u) (sessions_table d) = r # rs"
    by (auto simp: Durable_getSession_def split: list.splits)
  then have "r \<in> set (filter (\<lambda>r. row_id r = sid \<and> user_id r = u) (sessions_table d))"
    by simp
  then show ?thesis by auto
qed

lemma distinct_map_unique:
  "distinct (map f xs) \<Longrightarrow> x \<in> set xs \<Longrightarrow> y \<in> set xs \<Longrightarrow> f x = f y \<Longrightarrow> x = y"
  by (meson distinct_map inj_onD)

lemma Durable_other_user:
  assumes "distinct (map row_id (sessions_table d))"
    and "Durable_getSession d sid u1 = Some s" and "u1 \<noteq> u2"
  shows "Durable_getSession d sid u2 = None"
proof -
  from Durable_getSession_SomeD[OF assms(2)]
  obtain r where r: "r \<in> set (sessions_table d)" "row_id r = sid" "user_id r = u1" by auto
  have "filter (\<lambda>r. row_id r = sid \<and> user_id r = u2) (sessions_table d) = []"
  proof (rule ccontr)
    assume "filter (\<lambda>r. row_id r = sid \<and> user_id r = u2) (sessions_table d) \<noteq> []"
    then obtain r' where r': "r' \<in> set (sessions_table d)" "row_id r' = sid" "user_id r' = u2"
      by (auto simp: filter_empty_conv)
    with r assms(1) have "r = r'" by (auto intro: distinct_map_unique[where f = row_id])
    with r r' assms(3) show False by simp
  qed
  then show ?thesis by (simp add: Durable_getSession_def)
qed

lemma Durable_isolation:
  assumes "u1 \<noteq> u2" and "distinct (map row_id (sessions_table d0))"
    and "Durable_createSession d0 now_id rnd now_created u1 = Inr (s, d1)"
    and "d = foldl Durable_call d1 calls"
    and "Durable_getSession d (session_id s) u1 = Some s"
  shows "Durable_getSession d (session_id s) u2 = None
       \<and> Durable_deleteSession d (session_id s) u2 = (False, d)
       \<and> Durable_getConversationHistory d (session_id s) u2 = []"
proof -
  have "distinct (map row_id (sessions_table d))"
    unfolding assms(4)
    using Durable_createSession_distinct[OF assms(2,3)] by (rule Durable_calls_distinct)
  then have "Durable_getSession d (session_id s) u2 = None"
    using assms(5,1) by (rule Durable_other_user)
  then show ?thesis
    by (simp add: Durable_deleteSession_def Durable_getConversationHistory_def)
qed


section \<open>Ordering of query results\<close>

lemma Map_get_delete_same: "Map_get (Map_delete m k) k = None"
  by (simp add: Map_get_delete)

lemma sorted_desc_sort_key:
  "sorted_wrt (\<lambda>a b. k b \<le> k a) (order_by_desc k rows)"
proof -
  have "sorted (map (\<lambda>r. - k r) (sort_key (\<lambda>r. - k r) rows))"
    by (rule sorted_sort_key)
  then show ?thesis
    by (simp add: order_by_desc_def sorted_map)
qed

lemma set_order_by_desc: "set (order_by_desc k rows) = set rows"
  by (simp add: order_by_desc_def)

section \<open>Ownership isolation\<close>

text \<open>
  C1. Let \<open>owner\<close> create a session \<open>s\<close>, in any state of the store, and let any calls
  by any users follow. Then for every other user, \<open>getSession\<close> on the id of \<open>s\<close> finds
  nothing, \<open>deleteSession\<close> returns false and leaves the whole store (so \<open>s\<close> and its
  messages) as it is, and \<open>getConversationHistory\<close> is empty. This holds for the
  in-memory store of the Worker; for \<open>SessionManager\<close>, whose \<open>deleteSession\<close> returns
  nothing and which keeps no messages, \<open>getSession\<close> finds nothing and \<open>deleteSession\<close>
  changes nothing; for the Durable Object it holds in every later state in which the
  owner still finds \<open>s\<close>, given a table whose ids were distinct to begin with (its ids
  carry no counter, so an id can be drawn again once its session has been deleted).
\<close>

theorem ownership_isolation:
  assumes "owner \<noteq> other"
  shows "(case InMemory_createSession st0 now_id now_created owner of
            (s, st1) \<Rightarrow>
              (let st = foldl InMemory_call st1 calls
               in InMemory_getSession st (session_id s) other = None
                \<and> InMemory_deleteSession st (session_id s) other = (False, st)
                \<and> InMemory_getConversationHistory st (session_id s) other = []))
       \<and> (case SessionManager_createSession sm0 now owner of
            (s, sm1) \<Rightarrow>
              (let sm = foldl SessionManager_call sm1 sm_calls
               in SessionManager_getSession sm (session_id s) other = None
                \<and> snd (SessionManager_deleteSession sm (session_id s) other) = sm))
       \<and> (case Durable_createSession d0 d_now_id rnd d_now_created owner of
            Inl e \<Rightarrow> True
          | Inr (s, d1) \<Rightarrow>
              (let d = foldl Durable_call d1 d_calls
               in distinct (map row_id (sessions_table d0))
                  \<and> Durable_getSession d (session_id s) owner = Some s
                  \<longrightarrow> Durable_getSession d (session_id s) other = None
                    \<and> Durable_deleteSession d (session_id s) other = (False, d)
                    \<and> Durable_getConversationHistory d (session_id s) other = []))"
proof (intro conjI)
  show "case InMemory_createSession st0 now_id now_created owner of
            (s, st1) \<Rightarrow>
              (let st = foldl InMemory_call st1 calls
               in InMemory_getSession st (session_id s) other = None
                \<and> InMemory_deleteSession st (session_id s) other = (False, st)
                \<and> InMemory_getConversationHistory st (session_id s) other = [])"
    using InMemory_isolation[OF assms]
    by (cases "InMemory_createSession st0 now_id now_created owner") (simp add: Let_def)
  show "case SessionManager_createSession sm0 now owner of
            (s, sm1) \<Rightarrow>
              (let sm = foldl SessionManager_call sm1 sm_calls
               in SessionManager_getSession sm (session_id s) other = None
                \<and> snd (SessionManager_deleteSession sm (session_id s) other) = sm)"
    using SessionManager_isolation[OF assms]
    by (cases "SessionManager_createSession sm0 now owner") (simp add: Let_def)
  show "case Durable_createSession d0 d_now_id rnd d_now_created owner of
            Inl e \<Rightarrow> True
          | Inr (s, d1) \<Rightarrow>
              (let d = foldl Durable_call d1 d_calls
               in distinct (map row_id (sessions_table d0))
                  \<and> Durable_getSession d (session_id s) owner = Some s
                  \<longrightarrow> Durable_getSession d (session_id s) other = None
                    \<and> Durable_deleteSession d (session_id s) other = (False, d)
                    \<and> Durable_getConversationHistory d (session_id s) other = [])"
    using Durable_isolation[OF assms]
    by (auto simp: Let_def split: sum.splits)
qed

theorem ownership_isolation_witness:
  "''user-1'' \<noteq> ''user-2''
 \<and> fst (InMemory_createSession InMemory_new 1000 1001 ''user-1'')
     = \<lparr>session_id = ''opencode-1000-0'', userId = ''user-1'', createdAt = 1001\<rparr>
 \<and> InMemory_getSession
       (foldl InMemory_call (snd (InMemory_createSession InMemory_new 1000 1001 ''user-1''))
          [Call_addMessage ''opencode-1000-0'' ''user-1'' \<lparr>role = ''user'', content = JS_string ''Hello''\<rparr> 1002,
           Call_createSession 1003 ''k3x9q1z7a'' 1004 ''user-2'',
           Call_deleteSession ''opencode-1000-0'' ''user-2''])
       ''opencode-1000-0'' ''user-2'' = None
 \<and> InMemory_getConversationHistory
       (foldl InMemory_call (snd (InMemory_createSession InMemory_new 1000 1001 ''user-1''))
          [Call_addMessage ''opencode-1000-0'' ''user-1'' \<lparr>role = ''user'', content = JS_string ''Hello''\<rparr> 1002,
           Call_createSession 1003 ''k3x9q1z7a'' 1004 ''user-2'',
           Call_deleteSession ''opencode-1000-0'' ''user-2''])
       ''opencode-1000-0'' ''user-1'' = [\<lparr>role = ''user'', content = JS_string ''Hello''\<rparr>]
 \<and> SessionManager_getSession
       (foldl SessionManager_call (snd (SessionManager_createSession SessionManager_new 5 ''user-1''))
          [Call_deleteSession ''session-0'' ''user-2''])
       ''session-0'' ''user-2'' = None
 \<and> Durable_getSession
       (foldl Durable_call (snd (projr (Durable_createSession (Durable_new example_engine) 1000 ''k3x9q1z7a'' 1001 ''user-1'')))
          [Call_deleteSession ''opencode-1000-k3x9q1z7a'' ''user-2''])
       ''opencode-1000-k3x9q1z7a'' ''user-2'' = None
 \<and> Durable_getSession
       (foldl Durable_call (snd (projr (Durable_createSession (Durable_new example_engine) 1000 ''k3x9q1z7a'' 1001 ''user-1'')))
          [Call_deleteSession ''opencode-1000-k3x9q1z7a'' ''user-2''])
       ''opencode-1000-k3x9q1z7a'' ''user-1''
     = Some \<lparr>session_id = ''opencode-1000-k3x9q1z7a'', userId = ''user-1'', createdAt = 1001\<rparr>"
  using ownership_isolation
    [where owner = "''user-1''" and other = "''user-2''"
       and ?st0.0 = InMemory_new and now_id = 1000 and now_created = 1001
       and calls = "[Call_addMessage ''opencode-1000-0'' ''user-1'' \<lparr>role = ''user'', content = JS_string ''Hello''\<rparr> 1002,
           Call_createSession 1003 ''k3x9q1z7a'' 1004 ''user-2'',
           Call_deleteSession ''opencode-1000-0'' ''user-2'']"
       and ?sm0.0 = SessionManager_new and now = 5
       and sm_calls = "[Call_deleteSession ''session-0'' ''user-2'']"
       and ?d0.0 = "Durable_new example_engine" and d_now_id = 1000 and rnd = "''k3x9q1z7a''" and d_now_created = 1001
       and d_calls = "[Call_deleteSession ''opencode-1000-k3x9q1z7a'' ''user-2'']"]
  by (simp add: eval_defs)

section \<open>What deleteSession reports\<close>

text \<open>
  C4, as amended. \<open>deleteSession\<close> of the in-memory store returns true exactly when a
  session with that id exists and belongs to the requester; it then removes the session
  with its messages, and otherwise returns false and changes nothing; it has no error
  result; a second call with the same arguments returns false. \<open>deleteSession\<close> of
  \<open>SessionManager\<close> removes the session under the same condition and changes nothing
  otherwise, a second call changes nothing more, and it returns no value.
\<close>

theorem deleteSession_reports_deletion:
  "fst (InMemory_deleteSession st sid uid)
     = (\<exists>s. Map_get (sessions st) sid = Some s \<and> userId s = uid)
 \<and> snd (InMemory_deleteSession st sid uid)
     = (if fst (InMemory_deleteSession st sid uid)
        then st\<lparr>sessions := Map_delete (sessions st) sid,
                messages := Map_delete (messages st) sid\<rparr>
        else st)
 \<and> Map_get (Map_delete (sessions st) sid) sid = None
 \<and> Map_get (Map_delete (messages st) sid) sid = None
 \<and> fst (InMemory_deleteSession (snd (InMemory_deleteSession st sid uid)) sid uid) = False
 \<and> snd (SessionManager_deleteSession sm sid uid)
     = (if \<exists>s. Map_get (sm_sessions sm) sid = Some s \<and> userId s = uid
        then sm\<lparr>sm_sessions := Map_delete (sm_sessions sm) sid\<rparr>
        else sm)
 \<and> snd (SessionManager_deleteSession (snd (SessionManager_deleteSession sm sid uid)) sid uid)
     = snd (SessionManager_deleteSession sm sid uid)"
proof (intro conjI)
  show "fst (InMemory_deleteSession st sid uid)
          = (\<exists>s. Map_get (sessions st) sid = Some s \<and> userId s = uid)"
    by (auto simp: InMemory_deleteSession_def split: option.splits)
  show "snd (InMemory_deleteSession st sid uid)
     = (if fst (InMemory_deleteSession st sid uid)
        then st\<lparr>sessions := Map_delete (sessions st) sid,
                messages := Map_delete (messages st) sid\<rparr>
        else st)"
    by (auto simp: InMemory_deleteSession_def split: option.splits)
  show "Map_get (Map_delete (sessions st) sid) sid = None"
    by (rule Map_get_delete_same)
  show "Map_get (Map_delete (messages st) sid) sid = None"
    by (rule Map_get_delete_same)
  show "fst (InMemory_deleteSession (snd (InMemory_deleteSession st sid uid)) sid uid) = False"
    by (auto simp: InMemory_deleteSession_def Map_get_delete split: option.splits)
  show "snd (SessionManager_deleteSession sm sid uid)
     = (if \<exists>s. Map_get (sm_sessions sm) sid = Some s \<and> userId s = uid
        then sm\<lparr>sm_sessions := Map_delete (sm_sessions sm) sid\<rparr>
        else sm)"
    by (auto simp: SessionManager_deleteSession_def split: option.splits)
  show "snd (SessionManager_deleteSession (snd (SessionManager_deleteSession sm sid uid)) sid uid)
     = snd (SessionManager_deleteSession sm sid uid)"
    by (auto simp: SessionManager_deleteSession_def Map_get_delete split: option.splits)
qed

theorem deleteSession_reports_deletion_witness:
  "InMemory_deleteSession
     (snd (InMemory_createSession InMemory_new 1000 1001 ''user-1'')) ''opencode-1000-0'' ''user-1''
   = (True, \<lparr>sessions = [], messages = [], sessionCounter = 1\<rparr>)
 \<and> fst (InMemory_deleteSession
     (snd (InMemory_createSession InMemory_new 1000 1001 ''user-1'')) ''opencode-1000-0'' ''user-2'')
   = False
 \<and> fst (InMemory_deleteSession
          (snd (InMemory_deleteSession
             (snd (InMemory_createSession InMemory_new 1000 1001 ''user-1''))
             ''opencode-1000-0'' ''user-1''))
          ''opencode-1000-0'' ''user-1'') = False"
  using deleteSession_reports_deletion
    [of "snd (InMemory_createSession InMemory_new 1000 1001 ''user-1'')" "''opencode-1000-0''"
        "''user-1''" SessionManager_new]
  by (simp add: eval_defs)

text \<open>
  C4 as stated fails for \<open>SessionManager\<close>: the call by the owner, which removes the
  session, the call by another user and the call on an unknown id, which remove
  nothing, all return the same (no) value.
\<close>

theorem deleteSession_void_counterexample:
  "SessionManager_getSession (snd (SessionManager_createSession SessionManager_new 5 ''user-1''))
       ''session-0'' ''user-1''
     = Some \<lparr>session_id = ''session-0'', userId = ''user-1'', createdAt = 5\<rparr>
 \<and> SessionManager_deleteSession
       (snd (SessionManager_createSession SessionManager_new 5 ''user-1'')) ''session-0'' ''user-1''
     = ((), \<lparr>sm_sessions = [], idCounter = 1\<rparr>)
 \<and> SessionManager_deleteSession
       (snd (SessionManager_createSession SessionManager_new 5 ''user-1'')) ''session-0'' ''user-2''
     = ((), \<lparr>sm_sessions = [(''session-0'',
                 \<lparr>session_id = ''session-0'', userId = ''user-1'', createdAt = 5\<rparr>)],
             idCounter = 1\<rparr>)
 \<and> SessionManager_deleteSession
       (snd (SessionManager_createSession SessionManager_new 5 ''user-1'')) ''session-9'' ''user-1''
     = ((), \<lparr>sm_sessions = [(''session-0'',
                 \<lparr>session_id = ''session-0'', userId = ''user-1'', createdAt = 5\<rparr>)],
             idCounter = 1\<rparr>)"
  by (simp add: eval_defs)

section \<open>Listing the sessions of a user\<close>

text \<open>
  C8. \<open>listUserSessions\<close> returns the sessions of the requester and no others: from the
  in-memory store the stored sessions whose owner is the requester, from the Durable
  Object one session per row of the requester, most recent \<open>createdAt\<close> first;
  \<open>OpenCodeService.listUserSessions\<close> hands on what its store returns.
\<close>

theorem listUserSessions_owner_only:
  "set (InMemory_listUserSessions st u) = {s \<in> set (Map_values (sessions st)). userId s = u}
 \<and> set (Durable_listUserSessions d u)
     = {s \<in> session_of_row ` set (sessions_table d). userId s = u}
 \<and> length (Durable_listUserSessions d u)
     = length (filter (\<lambda>r. user_id r = u) (sessions_table d))
 \<and> sorted_wrt (\<lambda>a b. createdAt b \<le> createdAt a) (Durable_listUserSessions d u)
 \<and> set (Store_listUserSessions (InMemory st) u) = set (InMemory_listUserSessions st u)
 \<and> Store_listUserSessions (Durable d) u = Durable_listUserSessions d u"
proof (intro conjI)
  show "set (InMemory_listUserSessions st u) = {s \<in> set (Map_values (sessions st)). userId s = u}"
    by (simp add: InMemory_listUserSessions_def)
  show "set (Durable_listUserSessions d u)
     = {s \<in> session_of_row ` set (sessions_table d). userId s = u}"
    by (auto simp: Durable_listUserSessions_def set_order_by_desc session_of_row_def)
  show "length (Durable_listUserSessions d u)
     = length (filter (\<lambda>r. user_id r = u) (sessions_table d))"
    by (simp add: Durable_listUserSessions_def order_by_desc_def)
  show "sorted_wrt (\<lambda>a b. createdAt b \<le> createdAt a) (Durable_listUserSessions d u)"
    by (simp add: Durable_listUserSessions_def sorted_wrt_map session_of_row_def
        sorted_desc_sort_key)
qed simp_all

section \<open>Round trip\<close>

text \<open>
  C7. For every user and every store state, the session that \<open>createSession\<close> returns is
  found by the \<open>getSession\<close> that follows with the same user, with the same id and owner;
  this holds for the in-memory store of the Worker and for \<open>SessionManager\<close>.
\<close>

theorem create_then_get_round_trip:
  "(case InMemory_createSession st t1 t2 u of (s, st') \<Rightarrow>
      InMemory_getSession st' (session_id s) u = Some s \<and> userId s = u)
   \<and> (case SessionManager_createSession sm t u of (s, sm') \<Rightarrow>
      SessionManager_getSession sm' (session_id s) u = Some s \<and> userId s = u)"
  by (simp add: InMemory_createSession_def InMemory_getSession_def
      SessionManager_createSession_def SessionManager_getSession_def Map_get_set Let_def)

section \<open>Token expiry\<close>

lemma prefix_Bearer_nonempty: "prefix ''Bearer '' h \<Longrightarrow> h \<noteq> []"
  by auto

lemma String_includes_nonempty: "String_includes s sub \<Longrightarrow> sub \<noteq> [] \<Longrightarrow> s \<noteq> []"
  by (cases s) auto

text \<open>
  C2, as amended. A well-formed three-segment bearer token whose \<open>exp\<close> lies strictly
  before the current time in whole seconds is rejected: \<open>verifyClerkToken\<close> returns null
  and the middleware of worker-hono.ts answers 401 \<open>token_expired\<close>, and so does the
  Worker's middleware when \<open>exp\<close> is not 0. A token whose \<open>exp\<close> is the current second
  or later is not rejected as expired: \<open>verifyClerkToken\<close> returns what the issuer test
  and the subject give, and neither middleware answers \<open>token_expired\<close>.
\<close>

theorem expired_token_rejected:
  assumes "prefix ''Bearer '' authHeader"
    and "String_split CHR ''.'' (drop 7 authHeader) = [header_seg, seg, signature]"
    and "payload_exp p = Some e"
  shows "(atob_json (base64url_to_base64 seg) = Inr p \<and> e < now_ms div 1000 \<longrightarrow>
            verifyClerkToken atob_json now_ms authHeader = None
          \<and> Hono_authMiddleware atob_json now_ms (Some authHeader)
              = Respond (unauthorized ''token_expired''))
       \<and> (base64url_json seg = Inr p \<and> e < now_ms div 1000 \<and> e \<noteq> 0 \<longrightarrow>
            Worker_authMiddleware base64url_json now_ms (Some authHeader)
              = Respond (unauthorized ''token_expired''))
       \<and> (atob_json (base64url_to_base64 seg) = Inr p \<and> now_ms div 1000 \<le> e \<longrightarrow>
            verifyClerkToken atob_json now_ms authHeader
              = (case payload_iss p of
                   None \<Rightarrow> None
                 | Some iss \<Rightarrow> if prefix ''https://clerk.'' iss then payload_sub p else None)
          \<and> Hono_authMiddleware atob_json now_ms (Some authHeader)
              \<noteq> Respond (unauthorized ''token_expired''))
       \<and> (base64url_json seg = Inr p \<and> now_ms div 1000 \<le> e \<longrightarrow>
            Worker_authMiddleware base64url_json now_ms (Some authHeader)
              \<noteq> Respond (unauthorized ''token_expired''))"
  using assms prefix_Bearer_nonempty[OF assms(1)]
  by (auto simp: verifyClerkToken_def Hono_authMiddleware_def Worker_authMiddleware_def
      exp_before_def truthy_number_def unauthorized_def Let_def split: option.splits)

theorem expired_token_rejected_witness:
  "prefix ''Bearer '' (bearer segment_exp_999)
 \<and> String_split CHR ''.'' (drop 7 (bearer segment_exp_999))
     = [example_header_segment, segment_exp_999, ''signature'']
 \<and> payload_exp (example_payload (Some 999)) = Some 999
 \<and> example_atob_json (base64url_to_base64 segment_exp_999)
     = Inr (example_payload (Some 999))
 \<and> example_base64url_json segment_exp_999 = Inr (example_payload (Some 999))
 \<and> (999 :: int) < 1000000 div 1000
 \<and> verifyClerkToken example_atob_json 1000000 (bearer segment_exp_999) = None
 \<and> Hono_authMiddleware example_atob_json 1000000 (Some (bearer segment_exp_999))
     = Respond (unauthorized ''token_expired'')
 \<and> Worker_authMiddleware example_base64url_json 1000000 (Some (bearer segment_exp_999))
     = Respond (unauthorized ''token_expired'')"
proof -
  have h1: "prefix ''Bearer '' (bearer segment_exp_999)"
    by code_simp
  have h2: "String_split CHR ''.'' (drop 7 (bearer segment_exp_999))
              = [example_header_segment, segment_exp_999, ''signature'']"
    by code_simp
  have h3: "payload_exp (example_payload (Some 999)) = Some 999"
    by code_simp
  have h4: "example_atob_json (base64url_to_base64 segment_exp_999)
              = Inr (example_payload (Some 999))"
    by code_simp
  have h5: "example_base64url_json segment_exp_999 = Inr (example_payload (Some 999))"
    by code_simp
  have h6: "(999 :: int) < 1000000 div 1000"
    by simp
  note t = expired_token_rejected [OF h1 h2 h3,
      where atob_json = example_atob_json and now_ms = 1000000
        and base64url_json = example_base64url_json]
  from t h4 h5 h6 have
    "verifyClerkToken example_atob_json 1000000 (bearer segment_exp_999) = None
   \<and> Hono_authMiddleware example_atob_json 1000000 (Some (bearer segment_exp_999))
       = Respond (unauthorized ''token_expired'')
   \<and> Worker_authMiddleware example_base64url_json 1000000 (Some (bearer segment_exp_999))
       = Respond (unauthorized ''token_expired'')"
    by simp
  with h1 h2 h3 h4 h5 h6 show ?thesis by blast
qed

text \<open>
  C2 as stated fails at the boundary: with \<open>exp\<close> equal to the current second the three
  verifiers accept the token. (And the Worker's middleware, whose test is
  \<open>payload.exp && payload.exp < now\<close>, accepts \<open>exp\<close> 0 at any later time.)
\<close>

theorem expiry_boundary_counterexample:
  "example_atob_json (base64url_to_base64 segment_exp_1000)
     = Inr (example_payload (Some (1000000 div 1000)))
 \<and> example_base64url_json segment_exp_1000 = Inr (example_payload (Some (1000000 div 1000)))
 \<and> verifyClerkToken example_atob_json 1000000 (bearer segment_exp_1000) = Some ''user_123''
 \<and> Hono_authMiddleware example_atob_json 1000000 (Some (bearer segment_exp_1000))
     = Next ''user_123''
 \<and> Worker_authMiddleware example_base64url_json 1000000 (Some (bearer segment_exp_1000))
     = Next ''user_123''
 \<and> example_base64url_json segment_exp_0 = Inr (example_payload (Some 0))
 \<and> Worker_authMiddleware example_base64url_json 1000000 (Some (bearer segment_exp_0))
     = Next ''user_123''"
  by code_simp

text \<open>
  C10. A well-formed three-segment token whose payload has no \<open>exp\<close> is never rejected
  as expired: \<open>verifyClerkToken\<close> returns what the issuer test and the subject give,
  and neither middleware answers \<open>token_expired\<close>. When the issuer passes the verifier's
  test and the subject is not empty, \<open>verifyClerkToken\<close> returns the subject and each
  middleware goes on with the subject as the user id.
\<close>

theorem token_without_exp_accepted:
  assumes "prefix ''Bearer '' authHeader"
    and "String_split CHR ''.'' (drop 7 authHeader) = [header_seg, seg, signature]"
    and "payload_exp p = None"
  shows "(atob_json (base64url_to_base64 seg) = Inr p \<longrightarrow>
            verifyClerkToken atob_json now_ms authHeader
              = (case payload_iss p of
                   None \<Rightarrow> None
                 | Some iss \<Rightarrow> if prefix ''https://clerk.'' iss then payload_sub p else None)
          \<and> Hono_authMiddleware atob_json now_ms (Some authHeader)
              \<noteq> Respond (unauthorized ''token_expired''))
       \<and> (base64url_json seg = Inr p \<longrightarrow>
            Worker_authMiddleware base64url_json now_ms (Some authHeader)
              \<noteq> Respond (unauthorized ''token_expired''))
       \<and> (atob_json (base64url_to_base64 seg) = Inr p \<and> payload_iss p = Some iss
            \<and> prefix ''https://clerk.'' iss \<and> payload_sub p = Some sub \<and> sub \<noteq> [] \<longrightarrow>
            verifyClerkToken atob_json now_ms authHeader = Some sub)
       \<and> (atob_json (base64url_to_base64 seg) = Inr p \<and> payload_iss p = Some iss
            \<and> (String_includes iss ''clerk.'' \<or> String_includes iss ''.clerk.accounts.'')
            \<and> payload_sub p = Some sub \<and> sub \<noteq> [] \<longrightarrow>
            Hono_authMiddleware atob_json now_ms (Some authHeader) = Next sub)
       \<and> (base64url_json seg = Inr p \<and> payload_iss p = Some iss
            \<and> (String_includes iss ''clerk.'' \<or> String_includes iss ''.clerk.accounts.'')
            \<and> payload_sub p = Some sub \<and> sub \<noteq> [] \<longrightarrow>
            Worker_authMiddleware base64url_json now_ms (Some authHeader) = Next sub)"
  using assms prefix_Bearer_nonempty[OF assms(1)]
  by (auto simp: verifyClerkToken_def Hono_authMiddleware_def Worker_authMiddleware_def
      exp_before_def truthy_number_def unauthorized_def Let_def
      split: option.splits dest: String_includes_nonempty)

theorem token_without_exp_accepted_witness:
  "prefix ''Bearer '' (bearer segment_no_exp)
 \<and> String_split CHR ''.'' (drop 7 (bearer segment_no_exp))
     = [example_header_segment, segment_no_exp, ''signature'']
 \<and> example_payload None
     = \<lparr>payload_exp = None, payload_iss = Some ''https://clerk.example.com'',
        payload_sub = Some ''user_123''\<rparr>
 \<and> example_atob_json (base64url_to_base64 segment_no_exp)
     = Inr (example_payload None)
 \<and> example_base64url_json segment_no_exp = Inr (example_payload None)
 \<and> prefix ''https://clerk.'' ''https://clerk.example.com''
 \<and> String_includes ''https://clerk.example.com'' ''clerk.''
 \<and> verifyClerkToken example_atob_json 1000000 (bearer segment_no_exp) = Some ''user_123''
 \<and> Hono_authMiddleware example_atob_json 1000000 (Some (bearer segment_no_exp)) = Next ''user_123''
 \<and> Worker_authMiddleware example_base64url_json 1000000 (Some (bearer segment_no_exp))
     = Next ''user_123''"
proof -
  have h1: "prefix ''Bearer '' (bearer segment_no_exp)"
    by code_simp
  have h2: "String_split CHR ''.'' (drop 7 (bearer segment_no_exp))
              = [example_header_segment, segment_no_exp, ''signature'']"
    by code_simp
  have p: "example_payload None
     = \<lparr>payload_exp = None, payload_iss = Some ''https://clerk.example.com'',
        payload_sub = Some ''user_123''\<rparr>"
    by (simp add: example_payload_def)
  have h3: "payload_exp (example_payload None) = None"
    by (simp add: p)
  have h4: "example_atob_json (base64url_to_base64 segment_no_exp)
              = Inr (example_payload None)"
    by code_simp
  have h5: "example_base64url_json segment_no_exp = Inr (example_payload None)"
    by code_simp
  have h6: "prefix ''https://clerk.'' ''https://clerk.example.com''"
    by simp
  have h7: "String_includes ''https://clerk.example.com'' ''clerk.''"
    by simp
  note t = token_without_exp_accepted [OF h1 h2 h3,
      where atob_json = example_atob_json and now_ms = 1000000
        and base64url_json = example_base64url_json
        and iss = "''https://clerk.example.com''" and sub = "''user_123''"]
  from t h4 h5 h6 h7 have
    "verifyClerkToken example_atob_json 1000000 (bearer segment_no_exp) = Some ''user_123''
   \<and> Hono_authMiddleware example_atob_json 1000000 (Some (bearer segment_no_exp)) = Next ''user_123''
   \<and> Worker_authMiddleware example_base64url_json 1000000 (Some (bearer segment_no_exp))
       = Next ''user_123''"
    by (simp add: p)
  with h1 h2 p h4 h5 h6 h7 show ?thesis by blast
qed

section \<open>The prompt relay\<close>

lemma InMemory_addMessage_owned:
  assumes "InMemory_getSession st sid uid = Some s"
  shows "InMemory_addMessage st sid uid m
           = Inr (st\<lparr>messages := Map_set (messages st) sid (InMemory_history st sid @ [m])\<rparr>)"
  using assms
  by (auto simp: InMemory_getSession_def InMemory_addMessage_def split: option.splits if_splits)

lemma InMemory_getSession_messages_update [simp]:
  "InMemory_getSession (st\<lparr>messages := ms\<rparr>) sid uid = InMemory_getSession st sid uid"
  by (simp add: InMemory_getSession_def)

lemma InMemory_history_after_set [simp]:
  "InMemory_history (st\<lparr>messages := Map_set (messages st) sid h\<rparr>) sid = h"
  by (simp add: InMemory_history_def Map_get_set)

lemma InMemory_getConversationHistory_owned:
  assumes "InMemory_getSession st sid uid = Some s"
  shows "InMemory_getConversationHistory st sid uid = InMemory_history st sid"
  using assms
  by (auto simp: InMemory_getSession_def InMemory_getConversationHistory_def
      split: option.splits if_splits)

lemma Map_set_twice: "Map_set (Map_set m k v) k w = Map_set m k w"
  by (simp add: Map_set_def)

lemma Durable_addMessage_owned:
  assumes "Durable_getSession d sid uid = Some s"
  shows "Durable_addMessage d sid uid \<lparr>role = r, content = JS_string text\<rparr> now
           = Inr (d\<lparr>messages_table := messages_table d
                        @ [\<lparr>msg_id = messages_seq d + 1, msg_session_id = sid,
                            msg_role = r, msg_content = text, msg_created_at = now\<rparr>],
                     messages_seq := messages_seq d + 1\<rparr>)"
  using assms by (simp add: Durable_addMessage_def sql_bind_def)

lemma Durable_getSession_messages_update [simp]:
  "Durable_getSession (d\<lparr>messages_table := ms, messages_seq := n\<rparr>) sid uid
     = Durable_getSession d sid uid"
  by (simp add: Durable_getSession_def)

lemma map_message_id [simp]: "map (\<lambda>msg. \<lparr>role = role msg, content = content msg\<rparr>) msgs = msgs"
  by (induction msgs) simp_all

lemma callOpenCodeAPI_request:
  "snd (callOpenCodeAPI te up msgs)
     = up\<lparr>received := received up
              @ [\<lparr>req_model = defaultModel, req_messages = msgs, req_stream = False\<rparr>]\<rparr>"
  by (simp add: callOpenCodeAPI_def fetch_def Let_def split: prod.splits)

lemma callOpenCodeAPI_reply:
  "fst (callOpenCodeAPI te up msgs)
     = (case callOpenCodeAPI_try te
               (respond up \<lparr>req_model = defaultModel, req_messages = msgs, req_stream = False\<rparr>) of
          Inr reply \<Rightarrow> reply
        | Inl rejection \<Rightarrow> JS_string (callOpenCodeAPI_catch rejection))"
  by (simp add: callOpenCodeAPI_def fetch_def Let_def callOpenCodeAPI_catch_def
      split: prod.splits sum.splits rejection.splits)

lemma InMemory_history_owned_after_add:
  assumes "InMemory_getSession st sid uid = Some s"
    and "InMemory_addMessage st sid uid m = Inr st1"
  shows "InMemory_getSession st1 sid uid = Some s"
    and "InMemory_getConversationHistory st1 sid uid
           = InMemory_getConversationHistory st sid uid @ [m]"
proof -
  have st1: "st1 = st\<lparr>messages := Map_set (messages st) sid (InMemory_history st sid @ [m])\<rparr>"
    using assms by (simp add: InMemory_addMessage_owned)
  show g: "InMemory_getSession st1 sid uid = Some s"
    using assms(1) by (simp add: st1)
  show "InMemory_getConversationHistory st1 sid uid
           = InMemory_getConversationHistory st sid uid @ [m]"
    using g assms(1)
    by (simp add: InMemory_getConversationHistory_owned) (simp add: st1)
qed

lemma sendPrompt_steps:
  assumes "Store_getSession store sid uid = Some s"
    and "Store_addMessage store sid uid \<lparr>role = ''user'', content = JS_string promptText\<rparr> now_user
           = Inr store1"
    and "fst (callOpenCodeAPI type_error up (Store_getConversationHistory store1 sid uid))
           = JS_string r"
  shows "\<exists>store2.
           Store_addMessage store1 sid uid \<lparr>role = ''assistant'', content = JS_string r\<rparr> now_assistant
             = Inr store2
         \<and> sendPrompt type_error up store sid uid promptText now_user now_assistant
             = (Inr (JS_string r), store2,
                up\<lparr>received := received up
                       @ [\<lparr>req_model = defaultModel,
                           req_messages = Store_getConversationHistory store1 sid uid,
                           req_stream = False\<rparr>]\<rparr>)
         \<and> (case (store, store1, store2) of
               (InMemory st, InMemory st1, InMemory st2) \<Rightarrow>
                 InMemory_getConversationHistory st1 sid uid
                   = InMemory_getConversationHistory st sid uid
                     @ [\<lparr>role = ''user'', content = JS_string promptText\<rparr>]
               \<and> InMemory_getConversationHistory st2 sid uid
                   = InMemory_getConversationHistory st sid uid
                     @ [\<lparr>role = ''user'', content = JS_string promptText\<rparr>,
                        \<lparr>role = ''assistant'', content = JS_string r\<rparr>]
             | (Durable d, Durable d1, Durable d2) \<Rightarrow>
                 map message_of_row (messages_table d1)
                   = map message_of_row (messages_table d)
                     @ [\<lparr>role = ''user'', content = JS_string promptText\<rparr>]
               \<and> map message_of_row (messages_table d2)
                   = map message_of_row (messages_table d)
                     @ [\<lparr>role = ''user'', content = JS_string promptText\<rparr>,
                        \<lparr>role = ''assistant'', content = JS_string r\<rparr>]
               \<and> map msg_session_id (messages_table d2)
                   = map msg_session_id (messages_table d) @ [sid, sid]
             | _ \<Rightarrow> False)"
proof (cases store)
  case (InMemory st)
  from assms(1) InMemory have owned: "InMemory_getSession st sid uid = Some s" by simp
  from assms(2) InMemory obtain st1 where st1: "store1 = InMemory st1"
    and add1: "InMemory_addMessage st sid uid \<lparr>role = ''user'', content = JS_string promptText\<rparr> = Inr st1"
    by (auto split: sum.splits)
  note after1 = InMemory_history_owned_after_add[OF owned add1]
  obtain st2 where add2:
    "InMemory_addMessage st1 sid uid \<lparr>role = ''assistant'', content = JS_string r\<rparr> = Inr st2"
    using after1(1) by (simp add: InMemory_addMessage_owned)
  note after2 = InMemory_history_owned_after_add[OF after1(1) add2]
  have reply: "fst (callOpenCodeAPI type_error up (InMemory_getConversationHistory st1 sid uid)) = JS_string r"
    using assms(3) by (simp add: st1)
  have "sendPrompt type_error up store sid uid promptText now_user now_assistant
             = (Inr (JS_string r), InMemory st2,
                up\<lparr>received := received up
                       @ [\<lparr>req_model = defaultModel,
                           req_messages = Store_getConversationHistory store1 sid uid,
                           req_stream = False\<rparr>]\<rparr>)"
    using owned add1 add2
    by (simp add: sendPrompt_def InMemory st1 case_prod_beta reply callOpenCodeAPI_request)
  then show ?thesis
    using add2 after1(2) after2(2) by (simp add: InMemory st1)
next
  case (Durable d)
  from assms(1) Durable have owned: "Durable_getSession d sid uid = Some s" by simp
  from assms(2) Durable obtain d1 where d1: "store1 = Durable d1"
    and add1: "Durable_addMessage d sid uid \<lparr>role = ''user'', content = JS_string promptText\<rparr> now_user = Inr d1"
    by (auto split: sum.splits)
  have d1_eq: "d1 = d\<lparr>messages_table := messages_table d
                        @ [\<lparr>msg_id = messages_seq d + 1, msg_session_id = sid,
                            msg_role = ''user'', msg_content = promptText,
                            msg_created_at = now_user\<rparr>],
                     messages_seq := messages_seq d + 1\<rparr>"
    using add1 owned by (simp add: Durable_addMessage_owned)
  have owned1: "Durable_getSession d1 sid uid = Some s"
    using owned by (simp add: d1_eq)
  obtain d2 where add2:
    "Durable_addMessage d1 sid uid \<lparr>role = ''assistant'', content = JS_string r\<rparr> now_assistant = Inr d2"
    using owned1 by (simp add: Durable_addMessage_owned)
  have d2_eq: "d2 = d1\<lparr>messages_table := messages_table d1
                        @ [\<lparr>msg_id = messages_seq d1 + 1, msg_session_id = sid,
                            msg_role = ''assistant'', msg_content = r,
                            msg_created_at = now_assistant\<rparr>],
                     messages_seq := messages_seq d1 + 1\<rparr>"
    using add2 owned1 by (simp add: Durable_addMessage_owned)
  have reply: "fst (callOpenCodeAPI type_error up (Durable_getConversationHistory d1 sid uid)) = JS_string r"
    using assms(3) by (simp add: d1)
  have "sendPrompt type_error up store sid uid promptText now_user now_assistant
             = (Inr (JS_string r), Durable d2,
                up\<lparr>received := received up
                       @ [\<lparr>req_model = defaultModel,
                           req_messages = Store_getConversationHistory store1 sid uid,
                           req_stream = False\<rparr>]\<rparr>)"
    using owned add1 add2
    by (simp add: sendPrompt_def Durable d1 case_prod_beta reply callOpenCodeAPI_request)
  then show ?thesis
    using add2 by (simp add: Durable d1) (simp add: d2_eq d1_eq message_of_row_def)
qed

lemma sendPrompt_success_steps:
  assumes "Store_getSession store sid uid = Some s"
    and "Store_addMessage store sid uid \<lparr>role = ''user'', content = JS_string promptText\<rparr> now_user
           = Inr store1"
    and "callOpenCodeAPI_try type_error
           (respond up \<lparr>req_model = defaultModel,
                        req_messages = Store_getConversationHistory store1 sid uid,
                        req_stream = False\<rparr>) = Inr (JS_string r)"
  shows "\<exists>store2.
           Store_addMessage store1 sid uid \<lparr>role = ''assistant'', content = JS_string r\<rparr> now_assistant
             = Inr store2
         \<and> sendPrompt type_error up store sid uid promptText now_user now_assistant
             = (Inr (JS_string r), store2,
                up\<lparr>received := received up
                       @ [\<lparr>req_model = defaultModel,
                           req_messages = Store_getConversationHistory store1 sid uid,
                           req_stream = False\<rparr>]\<rparr>)
         \<and> (case (store, store1, store2) of
               (InMemory st, InMemory st1, InMemory st2) \<Rightarrow>
                 InMemory_getConversationHistory st1 sid uid
                   = InMemory_getConversationHistory st sid uid
                     @ [\<lparr>role = ''user'', content = JS_string promptText\<rparr>]
               \<and> InMemory_getConversationHistory st2 sid uid
                   = InMemory_getConversationHistory st sid uid
                     @ [\<lparr>role = ''user'', content = JS_string promptText\<rparr>,
                        \<lparr>role = ''assistant'', content = JS_string r\<rparr>]
             | (Durable d, Durable d1, Durable d2) \<Rightarrow>
                 map message_of_row (messages_table d1)
                   = map message_of_row (messages_table d)
                     @ [\<lparr>role = ''user'', content = JS_string promptText\<rparr>]
               \<and> map message_of_row (messages_table d2)
                   = map message_of_row (messages_table d)
                     @ [\<lparr>role = ''user'', content = JS_string promptText\<rparr>,
                        \<lparr>role = ''assistant'', content = JS_string r\<rparr>]
               \<and> map msg_session_id (messages_table d2)
                   = map msg_session_id (messages_table d) @ [sid, sid]
             | _ \<Rightarrow> False)"
proof -
  have "fst (callOpenCodeAPI type_error up (Store_getConversationHistory store1 sid uid)) = JS_string r"
    using assms(3) by (simp add: callOpenCodeAPI_reply)
  with assms(1,2) show ?thesis by (rule sendPrompt_steps)
qed

text \<open>
  C5. The steps are taken in the order stated (lemma \<open>sendPrompt_success_steps\<close>): the
  user message is stored, one request carrying the history read after that is sent, the
  reply is stored as the assistant message and returned. What is sent, though, is the
  history as \<open>getConversationHistory\<close> returns it. A session holds the message
  \<open>earlier\<close>, stored when the clock read 2000; the clock is then set back, and a
  prompt \<open>Hello\<close> is relayed when it reads 1990 and answered when it reads 1995. Over
  the Durable Object the request carries \<open>Hello\<close> before \<open>earlier\<close>, and the history
  afterwards is \<open>Hello\<close>, the reply, \<open>earlier\<close>: the two messages of the call are
  not at its end. Over the in-memory store the request carries \<open>earlier\<close>, then
  \<open>Hello\<close>, and the history ends with the two new messages.
\<close>

theorem sendPrompt_history_by_timestamp:
  "sendPrompt ''Cannot read properties of undefined'' example_upstream_ok
     (Durable (foldl Durable_call (Durable_new example_engine)
        [Call_createSession 1000 ''k3x9q1z7a'' 1001 ''user-1'',
         Call_addMessage ''opencode-1000-k3x9q1z7a'' ''user-1''
           \<lparr>role = ''user'', content = JS_string ''earlier''\<rparr> 2000]))
     ''opencode-1000-k3x9q1z7a'' ''user-1'' ''Hello'' 1990 1995
   = (Inr (JS_string ''Hi there''),
      Durable
        \<lparr>sql = example_engine,
           sessions_table = [\<lparr>row_id = ''opencode-1000-k3x9q1z7a'', user_id = ''user-1'',
                               created_at = 1001\<rparr>],
           messages_table =
             [\<lparr>msg_id = 1, msg_session_id = ''opencode-1000-k3x9q1z7a'', msg_role = ''user'',
                 msg_content = ''earlier'', msg_created_at = 2000\<rparr>,
              \<lparr>msg_id = 2, msg_session_id = ''opencode-1000-k3x9q1z7a'', msg_role = ''user'',
                 msg_content = ''Hello'', msg_created_at = 1990\<rparr>,
              \<lparr>msg_id = 3, msg_session_id = ''opencode-1000-k3x9q1z7a'',
                 msg_role = ''assistant'', msg_content = ''Hi there'',
                 msg_created_at = 1995\<rparr>],
           messages_seq = 3\<rparr>,
      example_upstream_ok
        \<lparr>received := [\<lparr>req_model = defaultModel,
                          req_messages = [\<lparr>role = ''user'', content = JS_string ''Hello''\<rparr>,
                                          \<lparr>role = ''user'', content = JS_string ''earlier''\<rparr>],
                          req_stream = False\<rparr>]\<rparr>)
 \<and> Store_getConversationHistory
     (fst (snd (sendPrompt ''Cannot read properties of undefined'' example_upstream_ok
        (Durable (foldl Durable_call (Durable_new example_engine)
           [Call_createSession 1000 ''k3x9q1z7a'' 1001 ''user-1'',
            Call_addMessage ''opencode-1000-k3x9q1z7a'' ''user-1''
              \<lparr>role = ''user'', content = JS_string ''earlier''\<rparr> 2000]))
        ''opencode-1000-k3x9q1z7a'' ''user-1'' ''Hello'' 1990 1995)))
     ''opencode-1000-k3x9q1z7a'' ''user-1''
   = [\<lparr>role = ''user'', content = JS_string ''Hello''\<rparr>,
      \<lparr>role = ''assistant'', content = JS_string ''Hi there''\<rparr>,
      \<lparr>role = ''user'', content = JS_string ''earlier''\<rparr>]
 \<and> received (snd (snd (sendPrompt ''Cannot read properties of undefined'' example_upstream_ok
        (InMemory (foldl InMemory_call InMemory_new
           [Call_createSession 1000 ''k3x9q1z7a'' 1001 ''user-1'',
            Call_addMessage ''opencode-1000-0'' ''user-1''
              \<lparr>role = ''user'', content = JS_string ''earlier''\<rparr> 2000]))
        ''opencode-1000-0'' ''user-1'' ''Hello'' 1990 1995)))
   = [\<lparr>req_model = defaultModel,
        req_messages = [\<lparr>role = ''user'', content = JS_string ''earlier''\<rparr>,
                        \<lparr>role = ''user'', content = JS_string ''Hello''\<rparr>],
        req_stream = False\<rparr>]
 \<and> Store_getConversationHistory
     (fst (snd (sendPrompt ''Cannot read properties of undefined'' example_upstream_ok
        (InMemory (foldl InMemory_call InMemory_new
           [Call_createSession 1000 ''k3x9q1z7a'' 1001 ''user-1'',
            Call_addMessage ''opencode-1000-0'' ''user-1''
              \<lparr>role = ''user'', content = JS_string ''earlier''\<rparr> 2000]))
        ''opencode-1000-0'' ''user-1'' ''Hello'' 1990 1995)))
     ''opencode-1000-0'' ''user-1''
   = [\<lparr>role = ''user'', content = JS_string ''earlier''\<rparr>,
      \<lparr>role = ''user'', content = JS_string ''Hello''\<rparr>,
      \<lparr>role = ''assistant'', content = JS_string ''Hi there''\<rparr>]"
  by (simp add: eval_defs service_defs)

text \<open>The upstream failures: each makes the \<open>try\<close> block throw.\<close>

lemma callOpenCodeAPI_try_failures:
  "callOpenCodeAPI_try te (Fetch_rejects e) = Inl e"
  "callOpenCodeAPI_try te (Not_ok status status_text (Inl e)) = Inl e"
  "callOpenCodeAPI_try te (Not_ok status status_text (Inr body))
     = Inl (Rejected_Error (''OpenCode API error: '' @ Number_toString (int status) @ '' ''
                              @ status_text @ '' - '' @ body))"
  "callOpenCodeAPI_try te (Json_rejects e) = Inl e"
  "callOpenCodeAPI_try te Json_null = Inl (Rejected_Error te)"
  "callOpenCodeAPI_try te (Json_data None)
     = Inl (Rejected_Error ''Invalid response format from OpenCode API'')"
  "callOpenCodeAPI_try te (Json_data (Some []))
     = Inl (Rejected_Error ''Invalid response format from OpenCode API'')"
  "callOpenCodeAPI_try te (Json_data (Some (No_message # choices))) = Inl (Rejected_Error te)"
  by (simp_all add: callOpenCodeAPI_try_def)




section \<open>POST /api/prompt\<close>








text \<open>
  \<open>sendPrompt\<close> when the second \<open>addMessage\<close> throws: the error goes to the caller, after
  the user message has been stored and the upstream called.
\<close>

lemma sendPrompt_reply_not_stored:
  assumes "Store_getSession store sid uid = Some s"
    and "Store_addMessage store sid uid \<lparr>role = ''user'', content = JS_string p\<rparr> now_user
           = Inr store1"
    and "Store_addMessage store1 sid uid
           \<lparr>role = ''assistant'',
              content = fst (callOpenCodeAPI type_error up
                               (Store_getConversationHistory store1 sid uid))\<rparr>
           now_assistant = Inl e"
  shows "sendPrompt type_error up store sid uid p now_user now_assistant
           = (Inl e, store1,
              snd (callOpenCodeAPI type_error up (Store_getConversationHistory store1 sid uid)))"
  using assms by (simp add: sendPrompt_def case_prod_beta Let_def)




section \<open>Order of the history\<close>

text \<open>
  What holds of the order. The in-memory store appends: after two accepted messages the
  history is the old one followed by the two, in the order accepted. The Durable
  Object returns the rows of the session sorted by \<open>created_at\<close>: a new message comes
  last when no earlier message of the session carries a later clock reading.
\<close>

lemma insort_key_append_last:
  "k a \<le> k x \<Longrightarrow> insort_key k a (ys @ [x]) = insort_key k a ys @ [x]"
  by (induction ys) simp_all

lemma sort_key_append_last:
  "(\<And>y. y \<in> set xs \<Longrightarrow> k y \<le> k x) \<Longrightarrow> sort_key k (xs @ [x]) = sort_key k xs @ [x]"
proof (induction xs)
  case Nil
  then show ?case by simp
next
  case (Cons a xs)
  then show ?case by (simp add: insort_key_append_last)
qed

lemma InMemory_append_order:
  assumes "InMemory_addMessage st sid uid m1 = Inr st1"
    and "InMemory_addMessage st1 sid uid m2 = Inr st2"
  shows "InMemory_getConversationHistory st2 sid uid
           = InMemory_getConversationHistory st sid uid @ [m1, m2]"
proof -
  from assms(1) obtain s where owned: "InMemory_getSession st sid uid = Some s"
    by (auto simp: InMemory_addMessage_def InMemory_getSession_def split: option.splits if_splits)
  note after1 = InMemory_history_owned_after_add[OF owned assms(1)]
  note after2 = InMemory_history_owned_after_add[OF after1(1) assms(2)]
  show ?thesis by (simp add: after1(2) after2(2))
qed

lemma Durable_append_order:
  assumes "Durable_addMessage d sid uid \<lparr>role = r, content = JS_string text\<rparr> now = Inr d1"
    and "list_all (\<lambda>r. msg_session_id r = sid \<longrightarrow> msg_created_at r \<le> now) (messages_table d)"
  shows "Durable_getConversationHistory d1 sid uid
           = Durable_getConversationHistory d sid uid @ [\<lparr>role = r, content = JS_string text\<rparr>]"
proof -
  from assms(1) obtain s where owned: "Durable_getSession d sid uid = Some s"
    by (auto simp: Durable_addMessage_def split: option.splits)
  let ?row = "\<lparr>msg_id = messages_seq d + 1, msg_session_id = sid,
                msg_role = r, msg_content = text, msg_created_at = now\<rparr>"
  have d1: "d1 = d\<lparr>messages_table := messages_table d @ [?row],
                    messages_seq := messages_seq d + 1\<rparr>"
    using assms(1) owned by (simp add: Durable_addMessage_owned)
  have owned1: "Durable_getSession d1 sid uid = Some s"
    using owned by (simp add: d1)
  have "sort_key msg_created_at (filter (\<lambda>r. msg_session_id r = sid) (messages_table d) @ [?row])
        = sort_key msg_created_at (filter (\<lambda>r. msg_session_id r = sid) (messages_table d)) @ [?row]"
    using assms(2) by (intro sort_key_append_last) (auto simp: list_all_iff)
  then show ?thesis
    using owned owned1
    by (simp add: Durable_getConversationHistory_def order_by_asc_def) (simp add: d1 message_of_row_def)
qed

text \<open>
  C6. Two messages are accepted for one session, \<open>first\<close> then \<open>second\<close>, and the clock
  reads less at the second call than at the first. The Durable Object, which sorts by
  \<open>created_at\<close>, returns \<open>second\<close> before \<open>first\<close>; the in-memory store returns them in
  the order accepted.
\<close>

theorem Durable_history_by_timestamp:
  "Durable_getConversationHistory
     (foldl Durable_call (Durable_new example_engine)
        [Call_createSession 1000 ''k3x9q1z7a'' 1001 ''user-1'',
         Call_addMessage ''opencode-1000-k3x9q1z7a'' ''user-1''
           \<lparr>role = ''user'', content = JS_string ''first''\<rparr> 2000,
         Call_addMessage ''opencode-1000-k3x9q1z7a'' ''user-1''
           \<lparr>role = ''user'', content = JS_string ''second''\<rparr> 1999])
     ''opencode-1000-k3x9q1z7a'' ''user-1''
   = [\<lparr>role = ''user'', content = JS_string ''second''\<rparr>, \<lparr>role = ''user'', content = JS_string ''first''\<rparr>]
 \<and> InMemory_getConversationHistory
     (foldl InMemory_call InMemory_new
        [Call_createSession 1000 ''k3x9q1z7a'' 1001 ''user-1'',
         Call_addMessage ''opencode-1000-0'' ''user-1''
           \<lparr>role = ''user'', content = JS_string ''first''\<rparr> 2000,
         Call_addMessage ''opencode-1000-0'' ''user-1''
           \<lparr>role = ''user'', content = JS_string ''second''\<rparr> 1999])
     ''opencode-1000-0'' ''user-1''
   = [\<lparr>role = ''user'', content = JS_string ''first''\<rparr>, \<lparr>role = ''user'', content = JS_string ''second''\<rparr>]"
  by (simp add: eval_defs)

end
